theory Spec2Isabelle
  imports Complex_Main
begin

section \<open>Tensors and the seven-way action table\<close>

text \<open>
  A float is modelled by the real number it stands for. Comparisons, the argmax and the
  lookup in the table are exact on floats, so what is proved of them is proved of the
  program. \<open>softmax\<close>, the product with the table, \<open>tanh\<close> and \<open>sigmoid\<close> are the real
  functions that the float kernels approximate: they name what a branch computes, and
  the statements about the program say which of them is applied to which value, not
  what rounding makes of the result.
  A tensor of shape (batch, 7) is a list over the batch of logit vectors; a tensor of
  shape (batch, 1) is a list over the batch. \<open>policy_matrix\<close> is the module-level
  constant of \<^verbatim>\<open>discrete_stateful_rnn_model.py\<close>, row by row.
\<close>

definition policy_matrix :: "real list list" where
  "policy_matrix =
     [[1.0, 1.0],
      [0.5, 1.0],
      [0.0, 1.0],
      [0.0, 0.5],
      [0.0, 0.0],
      [-0.5, 0.0],
      [-1.0, 0.0]]"

text \<open>
  \<^verbatim>\<open>torch.argmax(out, dim=-1)\<close>: the index of the first maximal entry. The scan
  keeps the best index and value seen so far and replaces them only on a strictly
  larger entry.
\<close>

fun argmax_from :: "nat \<Rightarrow> real \<Rightarrow> nat \<Rightarrow> real list \<Rightarrow> nat" where
  "argmax_from best bv i [] = best"
| "argmax_from best bv i (x # xs) =
     (if bv < x then argmax_from i x (Suc i) xs else argmax_from best bv (Suc i) xs)"

definition argmax_last :: "real list \<Rightarrow> nat" where
  "argmax_last out = (case out of [] \<Rightarrow> 0 | x # xs \<Rightarrow> argmax_from 0 x 1 xs)"

text \<open>\<^verbatim>\<open>F.softmax(out, dim=-1)\<close> on one logit vector.\<close>

definition softmax :: "real list \<Rightarrow> real list" where
  "softmax out = map (\<lambda>x. exp x / sum_list (map exp out)) out"

text \<open>Column \<open>j\<close> of a matrix, and a row vector times a matrix with two columns.\<close>

definition column :: "nat \<Rightarrow> real list list \<Rightarrow> real list" where
  "column j M = map (\<lambda>row. row ! j) M"

definition dot :: "real list \<Rightarrow> real list \<Rightarrow> real" where
  "dot p c = sum_list (map2 (*) p c)"

definition vec_matmul :: "real list \<Rightarrow> real list list \<Rightarrow> real list" where
  "vec_matmul p M = map (\<lambda>j. dot p (column j M)) [0..<2]"

text \<open>
  The two branches of action selection for one batch element, as in
  \<^verbatim>\<open>DiscreteStatefulRNNModel.forward\<close> and \<^verbatim>\<open>step_forward\<close>:
  the hard branch indexes the table at the argmax, the soft branch multiplies the
  softmax row by the table.
\<close>

definition hard_action :: "real list \<Rightarrow> real \<times> real" where
  "hard_action out =
     (let hard = argmax_last out
      in (policy_matrix ! hard ! 0, policy_matrix ! hard ! 1))"

definition soft_action :: "real list \<Rightarrow> real \<times> real" where
  "soft_action out =
     (let soft = vec_matmul (softmax out) policy_matrix
      in (soft ! 0, soft ! 1))"

text \<open>The same on a batch: the pair of (batch, 1) tensors \<open>grid_action\<close>, \<open>pv_action\<close>.\<close>

definition select_actions :: "bool \<Rightarrow> real list list \<Rightarrow> real list \<times> real list" where
  "select_actions hard_actions out =
     (if hard_actions
      then (map (fst \<circ> hard_action) out, map (snd \<circ> hard_action) out)
      else (map (fst \<circ> soft_action) out, map (snd \<circ> soft_action) out))"

section \<open>Errors\<close>

text \<open>The Python exceptions that the modelled code can raise.\<close>

datatype py_error = ZeroDivisionError | TypeError | KeyError | IndexError | RuntimeError

section \<open>Module state and the beta schedule\<close>

text \<open>
  The attributes that both controllers set in \<^verbatim>\<open>__init__\<close> and that the
  lifecycle hooks read or write. \<open>beta\<close> is \<open>None\<close> after
  \<^verbatim>\<open>on_predict_start\<close>. \<open>training\<close> is the module's train/eval flag.
\<close>

record module_state =
  beta :: "real option"
  beta_min :: real
  beta_increment :: real
  beta_max :: real
  increase_beta_per_n_epoch :: int
  training :: bool

text \<open>
  \<^verbatim>\<open>reset_beta\<close>, \<^verbatim>\<open>on_train_start\<close>, \<^verbatim>\<open>on_predict_start\<close>
  and \<^verbatim>\<open>on_train_epoch_end\<close> have the same text in
  \<^verbatim>\<open>DiscreteStatefulRNNModel\<close> and \<^verbatim>\<open>LazySigRegModel\<close>; one
  definition over the extensible record serves both. In \<^verbatim>\<open>on_train_epoch_end\<close>
  the modulus raises \<open>ZeroDivisionError\<close> for an interval of zero, and adding the
  increment to \<open>None\<close> raises \<open>TypeError\<close>.

  The hook adds two Python floats. A float is modelled by the real number it stands
  for, and the addition of binary64, which rounds its result, is the parameter \<open>fadd\<close>:
  nothing is assumed about it, so what is proved of the schedule holds for the rounding
  addition of the machine as it does for exact addition. \<^verbatim>\<open>min\<close> compares and
  does not round.
\<close>

definition reset_beta :: "'a module_state_scheme \<Rightarrow> 'a module_state_scheme" where
  "reset_beta m = m\<lparr>beta := Some (beta_min m)\<rparr>"

definition on_train_start :: "'a module_state_scheme \<Rightarrow> 'a module_state_scheme" where
  "on_train_start m = reset_beta m"

definition on_predict_start :: "'a module_state_scheme \<Rightarrow> 'a module_state_scheme" where
  "on_predict_start m = m\<lparr>beta := None\<rparr>"

definition on_train_epoch_end ::
  "(real \<Rightarrow> real \<Rightarrow> real) \<Rightarrow> int \<Rightarrow> 'a module_state_scheme \<Rightarrow>
   py_error + 'a module_state_scheme" where
  "on_train_epoch_end fadd current_epoch m =
     (if increase_beta_per_n_epoch m = 0 then Inl ZeroDivisionError
      else if current_epoch mod increase_beta_per_n_epoch m = 0 then
        (case beta m of
           None \<Rightarrow> Inl TypeError
         | Some b \<Rightarrow>
             Inr (m\<lparr>beta := Some (min (fadd b (beta_increment m)) (beta_max m))\<rparr>))
      else Inr m)"

text \<open>
  The training driver is PyTorch Lightning's fit loop, a library outside the repository:
  it calls \<^verbatim>\<open>on_train_start\<close> once, and at the end of each epoch it calls
  \<^verbatim>\<open>on_train_epoch_end\<close> while \<^verbatim>\<open>current_epoch\<close> still holds the number
  of epochs completed before the one that is ending, counted from 0. \<open>run_epochs e k\<close>
  runs the hook for the epochs \<open>e, e + 1, ..., e + k - 1\<close>; \<open>fit k\<close> is a training run
  of \<open>k\<close> completed epochs.
\<close>

fun run_epochs ::
  "(real \<Rightarrow> real \<Rightarrow> real) \<Rightarrow> int \<Rightarrow> nat \<Rightarrow> 'a module_state_scheme \<Rightarrow>
   py_error + 'a module_state_scheme" where
  "run_epochs fadd current_epoch 0 m = Inr m"
| "run_epochs fadd current_epoch (Suc k) m =
     (case on_train_epoch_end fadd current_epoch m of
        Inl e \<Rightarrow> Inl e
      | Inr m' \<Rightarrow> run_epochs fadd (current_epoch + 1) k m')"

definition fit ::
  "(real \<Rightarrow> real \<Rightarrow> real) \<Rightarrow> nat \<Rightarrow> 'a module_state_scheme \<Rightarrow>
   py_error + 'a module_state_scheme" where
  "fit fadd k m = run_epochs fadd 0 k (on_train_start m)"

text \<open>
  The schedule in the words of the specification: after \<open>K\<close> epochs with interval \<open>N\<close>
  and increment \<open>\<Delta>\<close>, beta is \<open>min (floor + \<Delta> * \<lfloor>K / N\<rfloor>) ceiling\<close>.
\<close>

definition spec_beta :: "'a module_state_scheme \<Rightarrow> nat \<Rightarrow> real" where
  "spec_beta m K =
     min (beta_min m
          + beta_increment m * of_int \<lfloor>real K / of_int (increase_beta_per_n_epoch m)\<rfloor>)
         (beta_max m)"

text \<open>What the hooks compute: \<open>n\<close> times the update of the hook, one float addition and
  one \<^verbatim>\<open>min\<close> each, from the floor.\<close>

definition beta_after :: "(real \<Rightarrow> real \<Rightarrow> real) \<Rightarrow> 'a module_state_scheme \<Rightarrow> nat \<Rightarrow> real" where
  "beta_after fadd m n =
     ((\<lambda>b. min (fadd b (beta_increment m)) (beta_max m)) ^^ n) (beta_min m)"

text \<open>A schedule whose values are binary fractions, so that every float addition on
  them is exact and \<open>fadd\<close> is \<open>(+)\<close> there.\<close>

definition example_schedule :: module_state where
  "example_schedule =
     \<lparr>beta = Some 0.5, beta_min = 0.5, beta_increment = 0.25, beta_max = 5.0,
      increase_beta_per_n_epoch = 2, training = True\<rparr>"

section \<open>The battery environment and the discrete controller\<close>

text \<open>
  \<^verbatim>\<open>battery.py\<close> is not among the sources, so the environments are parameters of
  the model. \<open>battery_env\<close> is the interface that
  \<^verbatim>\<open>DiscreteStatefulRNNModel\<close> uses of \<^verbatim>\<open>BatteryEnv\<close>: the capacity, the
  two initial states for a batch size, and the call that advances one step and returns
  the next state and the cost. The random initial state draws from a generator, whose
  state \<open>'w\<close> is passed through.
\<close>

record battery_base =
  capacity_kWh :: real

record ('w, 'p, 'k) battery_env = battery_base +
  get_initial_state :: "nat \<Rightarrow> real list"
  get_random_initial_state :: "nat \<Rightarrow> 'w \<Rightarrow> real list \<times> 'w"
  battery_call ::
    "real list \<Rightarrow> real list \<Rightarrow> real list \<Rightarrow> 'p \<Rightarrow> 'p \<Rightarrow> real option \<Rightarrow> 'k
       \<Rightarrow> real list \<times> real list"

text \<open>
  A batched input tensor of shape (batch, time, ...): its first two sizes and its slice
  at a time index (\<^verbatim>\<open>x[:, i : i + 1]\<close> for the features, the solar power and the
  price, \<^verbatim>\<open>peak_ind[:, i]\<close> for the peak indicator).
\<close>

record 'a seq_tensor =
  size0 :: nat
  size1 :: nat
  slice :: "nat \<Rightarrow> 'a"

text \<open>
  The networks are black boxes. \<open>encoder\<close> stands for the concatenation of the features
  with the normalised battery state followed by the GRU; \<open>fc\<close> is the head that yields
  the (batch, 1, 7) logits; \<open>zeros_h\<close> is the zero hidden state for a batch size.
\<close>

record ('xt, 'z, 'h) discrete_nets =
  encoder :: "'xt \<Rightarrow> real list \<Rightarrow> 'h \<Rightarrow> 'z \<times> 'h"
  fc :: "'z \<Rightarrow> real list list"
  zeros_h :: "nat \<Rightarrow> 'h"

record discrete_model = module_state +
  semi_discrete :: bool

text \<open>What one pass of the loop body of \<^verbatim>\<open>forward\<close> computes; \<open>logits\<close> is the
  intermediate \<^verbatim>\<open>out\<close>, the other four are what the pass adds to the result
  tensors at its time index.\<close>

record step_record =
  logits :: "real list list"
  grid_action :: "real list"
  pv_action :: "real list"
  battery_state :: "real list"
  cost :: "real list"

text \<open>The loop \<^verbatim>\<open>for i in range(x.size(1))\<close> of
  \<^verbatim>\<open>DiscreteStatefulRNNModel.forward\<close>, over the list of its indices.\<close>

fun forward_loop ::
  "('xt, 'z, 'h) discrete_nets \<Rightarrow> ('w, 'p, 'k) battery_env \<Rightarrow> bool \<Rightarrow> real option \<Rightarrow>
   'xt seq_tensor \<Rightarrow> 'p seq_tensor \<Rightarrow> 'p seq_tensor \<Rightarrow> 'k seq_tensor \<Rightarrow>
   nat list \<Rightarrow> 'h \<Rightarrow> real list \<Rightarrow> step_record list" where
  "forward_loop net bat hard_actions b x pv pr peak_ind [] h0 bs = []"
| "forward_loop net bat hard_actions b x pv pr peak_ind (i # is) h0 bs =
     (let x_t = slice x i;
          pv_t = slice pv i;
          pr_t = slice pr i;
          (z_t, h1) = encoder net x_t (map (\<lambda>s. s / capacity_kWh bat) bs) h0;
          out = fc net z_t;
          (grid, solar) = select_actions hard_actions out;
          (bs', c) = battery_call bat bs grid solar pv_t pr_t b (slice peak_ind i)
      in \<lparr>logits = out, grid_action = grid, pv_action = solar,
          battery_state = bs', cost = c\<rparr>
         # forward_loop net bat hard_actions b x pv pr peak_ind is h1 bs')"

text \<open>
  \<^verbatim>\<open>forward\<close>: the initial state is random in training mode and the fixed one
  otherwise. The result tensors of shape (batch, time, 1) are given as the list over
  time of their (batch, 1) slices.
\<close>

definition forward_steps ::
  "'a discrete_model_scheme \<Rightarrow> ('xt, 'z, 'h) discrete_nets \<Rightarrow> ('w, 'p, 'k) battery_env \<Rightarrow>
   'xt seq_tensor \<Rightarrow> 'p seq_tensor \<Rightarrow> 'p seq_tensor \<Rightarrow> 'k seq_tensor \<Rightarrow> bool \<Rightarrow> 'w \<Rightarrow>
   step_record list \<times> 'w" where
  "forward_steps m net bat x pv pr peak_ind hard_actions w =
     (let h0 = zeros_h net (size0 x);
          (bs, w') = (if training m then get_random_initial_state bat (size0 x) w
                      else (get_initial_state bat (size0 x), w))
      in (forward_loop net bat hard_actions (beta m) x pv pr peak_ind [0..<size1 x] h0 bs,
          w'))"

definition discrete_forward ::
  "'a discrete_model_scheme \<Rightarrow> ('xt, 'z, 'h) discrete_nets \<Rightarrow> ('w, 'p, 'k) battery_env \<Rightarrow>
   'xt seq_tensor \<Rightarrow> 'p seq_tensor \<Rightarrow> 'p seq_tensor \<Rightarrow> 'k seq_tensor \<Rightarrow> bool \<Rightarrow> 'w \<Rightarrow>
   (real list list \<times> real list list \<times> real list list \<times> real list list) \<times> 'w" where
  "discrete_forward m net bat x pv pr peak_ind hard_actions w =
     (let (steps, w') = forward_steps m net bat x pv pr peak_ind hard_actions w
      in ((map grid_action steps, map pv_action steps,
           map battery_state steps, map cost steps), w'))"

text \<open>
  The forward calls made by \<^verbatim>\<open>training_step\<close> (\<^verbatim>\<open>self(*batch)\<close>, so
  \<^verbatim>\<open>hard_actions\<close> takes its default \<open>False\<close>) and by \<^verbatim>\<open>validation_step\<close>
  (\<^verbatim>\<open>hard_actions=False if self.semi_discrete else True\<close>). The reduction of the
  costs to the loss and the logging that follow are not modelled.
\<close>

definition training_step_steps ::
  "'a discrete_model_scheme \<Rightarrow> ('xt, 'z, 'h) discrete_nets \<Rightarrow> ('w, 'p, 'k) battery_env \<Rightarrow>
   'xt seq_tensor \<Rightarrow> 'p seq_tensor \<Rightarrow> 'p seq_tensor \<Rightarrow> 'k seq_tensor \<Rightarrow> 'w \<Rightarrow>
   step_record list \<times> 'w" where
  "training_step_steps m net bat x pv pr peak_ind w =
     forward_steps m net bat x pv pr peak_ind False w"

definition validation_step_steps ::
  "'a discrete_model_scheme \<Rightarrow> ('xt, 'z, 'h) discrete_nets \<Rightarrow> ('w, 'p, 'k) battery_env \<Rightarrow>
   'xt seq_tensor \<Rightarrow> 'p seq_tensor \<Rightarrow> 'p seq_tensor \<Rightarrow> 'k seq_tensor \<Rightarrow> 'w \<Rightarrow>
   step_record list \<times> 'w" where
  "validation_step_steps m net bat x pv pr peak_ind w =
     forward_steps m net bat x pv pr peak_ind (if semi_discrete m then False else True) w"

text \<open>\<^verbatim>\<open>step_forward\<close>: one transition for a caller that keeps the battery state
  and the hidden state itself. \<open>step_logits\<close> names its intermediate \<^verbatim>\<open>out\<close>.\<close>

definition step_logits ::
  "('xt, 'z, 'h) discrete_nets \<Rightarrow> ('w, 'p, 'k) battery_env \<Rightarrow> real list \<Rightarrow> 'xt \<Rightarrow> 'h \<Rightarrow>
   real list list" where
  "step_logits net bat bs x_t h0 =
     fc net (fst (encoder net x_t (map (\<lambda>s. s / capacity_kWh bat) bs) h0))"

definition discrete_step_forward ::
  "'a discrete_model_scheme \<Rightarrow> ('xt, 'z, 'h) discrete_nets \<Rightarrow> ('w, 'p, 'k) battery_env \<Rightarrow>
   real list \<Rightarrow> 'xt \<Rightarrow> 'h \<Rightarrow> real list \<times> real list \<times> real list \<times> 'h" where
  "discrete_step_forward m net bat bs x_t h0 =
     (let (z_t, h1) = encoder net x_t (map (\<lambda>s. s / capacity_kWh bat) bs) h0;
          out = fc net z_t;
          (grid, solar) =
            (if \<not> semi_discrete m
             then (map (fst \<circ> hard_action) out, map (snd \<circ> hard_action) out)
             else (map (fst \<circ> soft_action) out, map (snd \<circ> soft_action) out))
      in (grid, solar, bs, h1))"

section \<open>The signature-regression controller\<close>

text \<open>A tensor of shape (batch, time) is a list over the batch of rows over time.\<close>

type_synonym tensor2 = "real list list"

definition sigmoid :: "real \<Rightarrow> real" where
  "sigmoid x = 1 / (1 + exp (- x))"

text \<open>
  The interface that \<^verbatim>\<open>LazySigRegModel\<close> uses of \<^verbatim>\<open>SeqBatteryEnv\<close>, which is
  not among the sources either: the capacity, the neutral trace for a batch size and a
  sequence length, \<^verbatim>\<open>forward\<close> (actions, solar power, price, \<^verbatim>\<open>beta\<close>,
  \<^verbatim>\<open>random_initial_state\<close>, peak indicator) and \<^verbatim>\<open>static_forward\<close> (an
  estimated state trace first, then the same without the random flag). Both return a
  battery trace and the costs, and may draw from the generator.
\<close>

record ('w, 'p, 'k) seq_battery_env = battery_base +
  get_neutral_trace :: "nat \<Rightarrow> nat \<Rightarrow> tensor2"
  seq_forward ::
    "tensor2 \<Rightarrow> tensor2 \<Rightarrow> 'p \<Rightarrow> 'p \<Rightarrow> real option \<Rightarrow> bool \<Rightarrow> 'k \<Rightarrow> 'w
       \<Rightarrow> (tensor2 \<times> tensor2) \<times> 'w"
  static_forward ::
    "tensor2 \<Rightarrow> tensor2 \<Rightarrow> tensor2 \<Rightarrow> 'p \<Rightarrow> 'p \<Rightarrow> real option \<Rightarrow> 'k \<Rightarrow> 'w
       \<Rightarrow> (tensor2 \<times> tensor2) \<times> 'w"

text \<open>
  The calls to the simulator are the observable effects of a forward pass. The state
  that is passed through a pass holds the generator, the gradient mode that
  \<^verbatim>\<open>torch.no_grad()\<close> switches, and the log of the simulator calls made so far, each
  with the arguments the claims are about and the gradient mode at the call.
\<close>

datatype sim_method = Forward | StaticForward

record sim_call =
  sim_method :: sim_method
  sim_grid_action :: tensor2
  sim_pv_action :: tensor2
  sim_beta :: "real option"
  sim_random_initial_state :: "bool option"
  sim_grad_enabled :: bool

record 'w world =
  rng :: 'w
  grad_enabled :: bool
  calls :: "sim_call list"

text \<open>
  The networks are black boxes: \<open>features\<close> is everything \<^verbatim>\<open>forward\<close> computes
  from \<open>x\<close> before the estimation loop (the two convolutions, the time augmentation, the
  expanding log-signature and its normalisation); \<open>sig_fc\<close> is the concatenation of these
  features with the normalised trace, the head \<^verbatim>\<open>self.fc\<close>, and the split of its
  output into \<^verbatim>\<open>actions[..., 0]\<close> and \<^verbatim>\<open>actions[..., 1]\<close>.
\<close>

record ('xt, 'f) sigreg_nets =
  features :: "'xt seq_tensor \<Rightarrow> 'f"
  sig_fc :: "'f \<Rightarrow> tensor2 \<Rightarrow> tensor2 \<times> tensor2"

record sigreg_model = module_state +
  e_step_iters :: int

definition e_step ::
  "('w, 'p, 'k) seq_battery_env \<Rightarrow> tensor2 \<Rightarrow> tensor2 \<Rightarrow> 'p \<Rightarrow> 'p \<Rightarrow> 'k \<Rightarrow> 'w world \<Rightarrow>
   (tensor2 \<times> tensor2) \<times> 'w world" where
  "e_step bat grid pv_act pv pr peak_indicator w =
     (let (r, g) = seq_forward bat grid pv_act pv pr None True peak_indicator (rng w)
      in (r, w\<lparr>rng := g,
               calls := calls w @
                 [\<lparr>sim_method = Forward, sim_grid_action = grid, sim_pv_action = pv_act,
                   sim_beta = None, sim_random_initial_state = Some True,
                   sim_grad_enabled = grad_enabled w\<rparr>]\<rparr>))"

definition m_step ::
  "'a sigreg_model_scheme \<Rightarrow> ('w, 'p, 'k) seq_battery_env \<Rightarrow> tensor2 \<Rightarrow> tensor2 \<Rightarrow> tensor2 \<Rightarrow>
   'p \<Rightarrow> 'p \<Rightarrow> 'k \<Rightarrow> 'w world \<Rightarrow> (tensor2 \<times> tensor2) \<times> 'w world" where
  "m_step m bat grid pv_act estimated_battery_state pv pr peak_indicator w =
     (let grid' = map (map tanh) grid;
          pv_act' = map (map sigmoid) pv_act;
          (r, g) = static_forward bat estimated_battery_state grid' pv_act' pv pr (beta m)
                     peak_indicator (rng w)
      in (r, w\<lparr>rng := g,
               calls := calls w @
                 [\<lparr>sim_method = StaticForward, sim_grid_action = grid',
                   sim_pv_action = pv_act', sim_beta = beta m,
                   sim_random_initial_state = None,
                   sim_grad_enabled = grad_enabled w\<rparr>]\<rparr>))"

text \<open>
  The prediction of the actions from a trace, which \<^verbatim>\<open>forward\<close> writes out twice
  with the same text, in the loop and after it: the trace without its first column,
  divided by the capacity, goes to the head with the features, and the two outputs are
  squashed.
\<close>

definition predict_actions ::
  "('xt, 'f) sigreg_nets \<Rightarrow> ('w, 'p, 'k) seq_battery_env \<Rightarrow> 'f \<Rightarrow> tensor2 \<Rightarrow> tensor2 \<times> tensor2" where
  "predict_actions net bat feats battery_trace =
     (let (grid, pv_act) =
            sig_fc net feats (map (map (\<lambda>s. s / capacity_kWh bat)) (map tl battery_trace))
      in (map (map tanh) grid, map (map sigmoid) pv_act))"

text \<open>The loop \<^verbatim>\<open>for _ in range(self.e_step_iters)\<close>, by the number of passes left.\<close>

fun e_loop ::
  "('xt, 'f) sigreg_nets \<Rightarrow> ('w, 'p, 'k) seq_battery_env \<Rightarrow> 'f \<Rightarrow> 'p \<Rightarrow> 'p \<Rightarrow> 'k \<Rightarrow>
   nat \<Rightarrow> tensor2 \<Rightarrow> 'w world \<Rightarrow> tensor2 \<times> 'w world" where
  "e_loop net bat feats pv pr peak_ind 0 battery_trace w = (battery_trace, w)"
| "e_loop net bat feats pv pr peak_ind (Suc n) battery_trace w =
     (let (grid, pv_act) = predict_actions net bat feats battery_trace;
          ((battery_trace', _), w') = e_step bat grid pv_act pv pr peak_ind w
      in e_loop net bat feats pv pr peak_ind n battery_trace' w')"

text \<open>
  \<^verbatim>\<open>LazySigRegModel.forward\<close>. \<^verbatim>\<open>range(k)\<close> is empty for \<open>k \<le> 0\<close>, hence
  \<open>nat\<close>. The \<^verbatim>\<open>with torch.no_grad()\<close> block switches the gradient mode off and
  restores it on exit.
\<close>

definition sigreg_forward ::
  "'a sigreg_model_scheme \<Rightarrow> ('xt, 'f) sigreg_nets \<Rightarrow> ('w, 'p, 'k) seq_battery_env \<Rightarrow>
   'xt seq_tensor \<Rightarrow> 'p \<Rightarrow> 'p \<Rightarrow> 'k \<Rightarrow> 'w world \<Rightarrow>
   (tensor2 \<times> tensor2 \<times> tensor2 \<times> tensor2) \<times> 'w world" where
  "sigreg_forward m net bat x pv pr peak_ind w =
     (let feats = features net x;
          (battery_trace, w1) =
            e_loop net bat feats pv pr peak_ind (nat (e_step_iters m))
              (get_neutral_trace bat (size0 x) (size1 x)) (w\<lparr>grad_enabled := False\<rparr>);
          w2 = w1\<lparr>grad_enabled := grad_enabled w\<rparr>;
          (grid_actions, pv_actions) = predict_actions net bat feats battery_trace;
          ((fantasy_battery_trace, costs), w3) =
            m_step m bat grid_actions pv_actions (map tl battery_trace) pv pr peak_ind w2
      in ((grid_actions, pv_actions, battery_trace, costs), w3))"

text \<open>
  \<^verbatim>\<open>LazySigRegModel.step_forward\<close>. \<open>path_features\<close> is everything up to the
  normalised log-signature of the path, started or extended, together with the local
  features; \<open>step_fc\<close> is the concatenation with the normalised battery state, the head and
  the split of its output.
\<close>

record ('xt, 'f, 'path) sigreg_step_nets =
  path_features :: "'xt \<Rightarrow> 'path option \<Rightarrow> 'f \<times> 'path"
  step_fc :: "'f \<Rightarrow> real list \<Rightarrow> real list \<times> real list"

definition sigreg_step_forward ::
  "('xt, 'f, 'path) sigreg_step_nets \<Rightarrow> ('w, 'p, 'k) seq_battery_env \<Rightarrow> real list \<Rightarrow> 'xt \<Rightarrow>
   'path option \<Rightarrow> real list \<times> real list \<times> 'path" where
  "sigreg_step_forward net bat bs x_t path =
     (let (feats, path') = path_features net x_t path;
          (grid, pv_act) = step_fc net feats (map (\<lambda>s. s / capacity_kWh bat) bs)
      in (map tanh grid, map sigmoid pv_act, path'))"

section \<open>A small instance for evaluation\<close>

text \<open>
  A battery of 10 kWh that moves 5 kWh per unit of grid action and clamps hard, a
  network whose logits are the first seven of its input features, and a batch of one
  trajectory of two steps. They serve to evaluate the model on concrete inputs.
\<close>

definition demo_battery :: "(nat, real list, bool list) battery_env" where
  "demo_battery =
     \<lparr>capacity_kWh = 10,
      get_initial_state = (\<lambda>n. replicate n 5),
      get_random_initial_state = (\<lambda>n w. (replicate n (real w), Suc w)),
      battery_call = (\<lambda>bs grid solar pv_t pr_t b peak.
        (map2 (\<lambda>s g. min 10 (max 0 (s + 5 * g))) bs grid,
         map2 (\<lambda>g price. 5 * g * price) grid pr_t))\<rparr>"

definition demo_nets :: "(real list list, real list list, unit) discrete_nets" where
  "demo_nets =
     \<lparr>encoder = (\<lambda>x bs h. (x, h)),
      fc = (\<lambda>z. map (\<lambda>l. take 7 (l @ replicate 7 0)) z),
      zeros_h = (\<lambda>n. ())\<rparr>"

definition demo_x :: "real list list seq_tensor" where
  "demo_x =
     \<lparr>size0 = 1, size1 = 2,
      slice = (\<lambda>i. if i = 0 then [[0, 0, 0, 0, 0, 0, 1]] else [[3, 0, 0, 0, 0, 0, 0]])\<rparr>"

definition demo_pv :: "real list seq_tensor" where
  "demo_pv = \<lparr>size0 = 1, size1 = 2, slice = (\<lambda>i. [1])\<rparr>"

definition demo_peak :: "bool list seq_tensor" where
  "demo_peak = \<lparr>size0 = 1, size1 = 2, slice = (\<lambda>i. [False])\<rparr>"

definition demo_discrete :: discrete_model where
  "demo_discrete =
     \<lparr>beta = Some 0.5, beta_min = 0.5, beta_increment = 0.1, beta_max = 5.0,
      increase_beta_per_n_epoch = 1, training = False, semi_discrete = False\<rparr>"

text \<open>
  The same battery as a sequence environment: a forward replay rolls the state along
  each row of grid actions, from the generator's value when the initial state is random
  and from 5 kWh otherwise; a static replay applies each action to the given state. The
  network of the signature controller here puts out the constants 1 and 0 for the two
  actions at every time step.
\<close>

fun demo_roll :: "real \<Rightarrow> real list \<Rightarrow> real list" where
  "demo_roll s [] = [s]"
| "demo_roll s (g # gs) = s # demo_roll (min 10 (max 0 (s + 5 * g))) gs"

definition demo_seq_battery :: "(nat, tensor2, unit) seq_battery_env" where
  "demo_seq_battery =
     \<lparr>capacity_kWh = 10,
      get_neutral_trace = (\<lambda>b t. replicate b (replicate (Suc t) 5)),
      seq_forward = (\<lambda>grid pv_act pv pr b random peak w.
        ((map (demo_roll (if random then real w else 5)) grid,
          map (map (\<lambda>g. 5 * g)) grid),
         if random then Suc w else w)),
      static_forward = (\<lambda>est grid pv_act pv pr b peak w.
        ((map2 (map2 (\<lambda>s g. min 10 (max 0 (s + 5 * g)))) est grid,
          map (map (\<lambda>g. 5 * g)) grid),
         w))\<rparr>"

definition demo_sig_nets :: "(real list list, unit) sigreg_nets" where
  "demo_sig_nets =
     \<lparr>features = (\<lambda>x. ()),
      sig_fc = (\<lambda>f tr. (map (map (\<lambda>s. 1)) tr, map (map (\<lambda>s. 0)) tr))\<rparr>"

definition demo_sigreg :: sigreg_model where
  "demo_sigreg =
     \<lparr>beta = Some 0.5, beta_min = 0.5, beta_increment = 0.1, beta_max = 5.0,
      increase_beta_per_n_epoch = 1, training = False, e_step_iters = 1\<rparr>"

definition demo_x1 :: "real list list seq_tensor" where
  "demo_x1 = \<lparr>size0 = 1, size1 = 1, slice = (\<lambda>i. [[0, 0, 0, 0, 0, 0, 1]])\<rparr>"

definition demo_world :: "nat \<Rightarrow> nat world" where
  "demo_world w = \<lparr>rng = w, grad_enabled = True, calls = []\<rparr>"

definition demo_step_nets :: "(real list, unit, nat) sigreg_step_nets" where
  "demo_step_nets =
     \<lparr>path_features = (\<lambda>x_t path. ((), case path of None \<Rightarrow> 0 | Some n \<Rightarrow> Suc n)),
      step_fc = (\<lambda>f bs. (map (\<lambda>s. 1) bs, map (\<lambda>s. 0) bs))\<rparr>"

text \<open>A second network for the signature controller, whose grid output at a time step is
  the normalised state of charge it is given there, and a configuration with two passes
  of the estimation loop: what a pass predicts then shows which trace it was given.\<close>

definition demo_feedback_nets :: "(real list list, unit) sigreg_nets" where
  "demo_feedback_nets =
     \<lparr>features = (\<lambda>x. ()),
      sig_fc = (\<lambda>f tr. (tr, map (map (\<lambda>s. 0)) tr))\<rparr>"

definition demo_sigreg2 :: sigreg_model where
  "demo_sigreg2 =
     \<lparr>beta = Some 0.5, beta_min = 0.5, beta_increment = 0.1, beta_max = 5.0,
      increase_beta_per_n_epoch = 1, training = False, e_step_iters = 2\<rparr>"

section \<open>Shapes of the tensors of a forward pass\<close>

text \<open>
  A second reading of the two \<^verbatim>\<open>forward\<close> methods, in which every tensor is
  replaced by its shape and every torch operation by its effect on shapes, with the
  exception it raises when the shapes do not fit. \<open>and_then\<close> passes the first exception on,
  as Python does.
\<close>

type_synonym shape = "nat list"

definition and_then :: "py_error + 'a \<Rightarrow> ('a \<Rightarrow> py_error + 'b) \<Rightarrow> py_error + 'b" where
  "and_then r f = (case r of Inl e \<Rightarrow> Inl e | Inr v \<Rightarrow> f v)"

text \<open>\<^verbatim>\<open>torch.cat(ts, dim=-1)\<close>: the tensors agree in all sizes but the last.\<close>

definition cat_last :: "shape list \<Rightarrow> py_error + shape" where
  "cat_last ss =
     (case ss of
        [] \<Rightarrow> Inl RuntimeError
      | s # rest \<Rightarrow>
          if s \<noteq> [] \<and> list_all (\<lambda>t. t \<noteq> [] \<and> butlast t = butlast s) rest
          then Inr (butlast s @ [sum_list (map last ss)])
          else Inl RuntimeError)"

text \<open>\<^verbatim>\<open>t[..., 0]\<close> drops the last axis, which must not be empty.\<close>

definition select_last :: "shape \<Rightarrow> py_error + shape" where
  "select_last s = (if s = [] \<or> last s = 0 then Inl IndexError else Inr (butlast s))"

text \<open>\<^verbatim>\<open>t[:, 1:]\<close>, \<^verbatim>\<open>t[:, 1:, None]\<close>, \<^verbatim>\<open>t[:, None, :]\<close>,
  \<^verbatim>\<open>t[:, i : i + 1]\<close> and \<^verbatim>\<open>t[:, i]\<close> need two axes. A slice past the end is
  empty; an index past the end raises.\<close>

definition tail1 :: "shape \<Rightarrow> py_error + shape" where
  "tail1 s = (case s of a # b # rest \<Rightarrow> Inr (a # (b - 1) # rest) | _ \<Rightarrow> Inl IndexError)"

definition tail1_newaxis :: "shape \<Rightarrow> py_error + shape" where
  "tail1_newaxis s =
     (case s of a # b # rest \<Rightarrow> Inr (a # (b - 1) # 1 # rest) | _ \<Rightarrow> Inl IndexError)"

definition newaxis1 :: "shape \<Rightarrow> py_error + shape" where
  "newaxis1 s = (case s of a # b # rest \<Rightarrow> Inr (a # 1 # b # rest) | _ \<Rightarrow> Inl IndexError)"

definition slice1 :: "nat \<Rightarrow> shape \<Rightarrow> py_error + shape" where
  "slice1 i s =
     (case s of
        a # b # rest \<Rightarrow> Inr (a # (if i < b then 1 else 0) # rest)
      | _ \<Rightarrow> Inl IndexError)"

definition index1 :: "nat \<Rightarrow> shape \<Rightarrow> py_error + shape" where
  "index1 i s =
     (case s of
        a # b # rest \<Rightarrow> if i < b then Inr (a # rest) else Inl IndexError
      | _ \<Rightarrow> Inl IndexError)"

text \<open>\<^verbatim>\<open>nn.Linear(n_in, n_out)\<close> maps the last axis; activations and dropout keep the
  shape.\<close>

definition linear_shape :: "nat \<Rightarrow> nat \<Rightarrow> shape \<Rightarrow> py_error + shape" where
  "linear_shape n_in n_out s =
     (if s \<noteq> [] \<and> last s = n_in then Inr (butlast s @ [n_out]) else Inl RuntimeError)"

text \<open>An in-place \<^verbatim>\<open>target += source\<close> keeps the target's shape and needs a source
  that broadcasts to it.\<close>

definition broadcasts_to :: "shape \<Rightarrow> shape \<Rightarrow> bool" where
  "broadcasts_to src tgt =
     (length src \<le> length tgt
      \<and> list_all2 (\<lambda>s t. s = t \<or> s = 1) (rev src) (take (length src) (rev tgt)))"

definition add_into :: "shape \<Rightarrow> shape \<Rightarrow> py_error + shape" where
  "add_into tgt src = (if broadcasts_to src tgt then Inr tgt else Inl RuntimeError)"

subsection \<open>The discrete controller\<close>

text \<open>The sizes fixed in \<^verbatim>\<open>__init__\<close>, and the shapes that the absent
  \<^verbatim>\<open>BatteryEnv\<close> returns, as parameters.\<close>

record discrete_dims =
  input_size :: nat
  hidden_size :: nat
  fc_size :: nat
  bidirectional :: bool

record battery_shapes =
  initial_state_shape :: "nat \<Rightarrow> shape"
  random_initial_state_shape :: "nat \<Rightarrow> shape"
  call_shapes ::
    "shape \<Rightarrow> shape \<Rightarrow> shape \<Rightarrow> shape \<Rightarrow> shape \<Rightarrow> shape \<Rightarrow> py_error + shape \<times> shape"

definition encoder_shape :: "discrete_dims \<Rightarrow> shape \<Rightarrow> py_error + shape" where
  "encoder_shape d s =
     (case s of
        [b, t, i] \<Rightarrow>
          if i = input_size d + 1
          then Inr [b, t, (if bidirectional d then 2 else 1) * hidden_size d]
          else Inl RuntimeError
      | _ \<Rightarrow> Inl RuntimeError)"

definition fc_shape :: "discrete_dims \<Rightarrow> shape \<Rightarrow> py_error + shape" where
  "fc_shape d s =
     and_then (linear_shape (hidden_size d) (fc_size d) s) (linear_shape (fc_size d) 7)"

text \<open>The hard branch: \<^verbatim>\<open>argmax\<close> over the last axis, and the table indexed by the
  result. The soft branch: the softmax times the (7, 2) table, and its two columns.\<close>

definition select_shape :: "bool \<Rightarrow> shape \<Rightarrow> py_error + shape \<times> shape" where
  "select_shape hard_actions out =
     (if hard_actions
      then (if out = [] \<or> last out = 0 then Inl IndexError
            else Inr (butlast out, butlast out))
      else and_then (linear_shape 7 2 out) (\<lambda>soft.
           and_then (select_last soft) (\<lambda>grid.
           and_then (select_last soft) (\<lambda>solar. Inr (grid, solar)))))"

fun forward_loop_shape ::
  "discrete_dims \<Rightarrow> battery_shapes \<Rightarrow> bool \<Rightarrow> nat \<Rightarrow> shape \<Rightarrow> shape \<Rightarrow> shape \<Rightarrow> shape \<Rightarrow>
   nat list \<Rightarrow> shape \<Rightarrow> py_error + unit" where
  "forward_loop_shape d bat hard_actions B x pv pr peak_ind [] bs = Inr ()"
| "forward_loop_shape d bat hard_actions B x pv pr peak_ind (i # is) bs =
     and_then (slice1 i x) (\<lambda>x_t.
     and_then (slice1 i pv) (\<lambda>pv_t.
     and_then (slice1 i pr) (\<lambda>pr_t.
     and_then (newaxis1 bs) (\<lambda>bs3.
     and_then (cat_last [x_t, bs3]) (\<lambda>x_cat.
     and_then (encoder_shape d x_cat) (\<lambda>z_t.
     and_then (fc_shape d z_t) (\<lambda>out.
     and_then (select_shape hard_actions out) (\<lambda>(grid, solar).
     and_then (index1 i peak_ind) (\<lambda>peak_t.
     and_then (call_shapes bat bs grid solar pv_t pr_t peak_t) (\<lambda>(bs', c).
     and_then (add_into [B, 1] grid) (\<lambda>_.
     and_then (add_into [B, 1] solar) (\<lambda>_.
     and_then (add_into [B, 1] bs') (\<lambda>_.
     and_then (add_into [B, 1] c) (\<lambda>_.
     forward_loop_shape d bat hard_actions B x pv pr peak_ind is bs'))))))))))))))"

text \<open>The four result tensors are allocated as zeros of shape (batch, time, 1) before the
  loop and only added to in place.\<close>

definition discrete_forward_shape ::
  "discrete_dims \<Rightarrow> battery_shapes \<Rightarrow> bool \<Rightarrow> bool \<Rightarrow> shape \<Rightarrow> shape \<Rightarrow> shape \<Rightarrow> shape \<Rightarrow>
   py_error + shape \<times> shape \<times> shape \<times> shape" where
  "discrete_forward_shape d bat train hard_actions x pv pr peak_ind =
     (case x of
        B # T # rest \<Rightarrow>
          and_then (forward_loop_shape d bat hard_actions B x pv pr peak_ind [0..<T]
                  (if train then random_initial_state_shape bat B
                   else initial_state_shape bat B))
            (\<lambda>_. Inr ([B, T, 1], [B, T, 1], [B, T, 1], [B, T, 1]))
      | _ \<Rightarrow> Inl IndexError)"

subsection \<open>The signature controller\<close>

record sigreg_dims =
  sig_input_size :: nat
  gc_logsig_channels :: nat
  sig_hidden_size :: nat
  reg_size :: nat

record seq_battery_shapes =
  neutral_trace_shape :: "nat \<Rightarrow> nat \<Rightarrow> shape"
  forward_shapes ::
    "shape \<Rightarrow> shape \<Rightarrow> shape \<Rightarrow> shape \<Rightarrow> shape \<Rightarrow> py_error + shape \<times> shape"
  static_forward_shapes ::
    "shape \<Rightarrow> shape \<Rightarrow> shape \<Rightarrow> shape \<Rightarrow> shape \<Rightarrow> shape \<Rightarrow> py_error + shape \<times> shape"

text \<open>The feature extractors are black boxes with the contract written in the comments
  of \<^verbatim>\<open>forward\<close>: from (batch, seq_len, input_size) to the log-signature stream
  (batch, seq_len, logsig_dim) and the local features (batch, seq_len, hidden_size).\<close>

definition features_shape :: "sigreg_dims \<Rightarrow> shape \<Rightarrow> py_error + shape \<times> shape" where
  "features_shape d x =
     (case x of
        [B, T, F] \<Rightarrow>
          if F = sig_input_size d
          then Inr ([B, T, gc_logsig_channels d], [B, T, sig_hidden_size d])
          else Inl RuntimeError
      | _ \<Rightarrow> Inl RuntimeError)"

definition sig_fc_shape :: "sigreg_dims \<Rightarrow> shape \<Rightarrow> py_error + shape" where
  "sig_fc_shape d s =
     and_then (linear_shape (gc_logsig_channels d + sig_hidden_size d + 1) (reg_size d) s) (\<lambda>s1.
     and_then (linear_shape (reg_size d) (reg_size d) s1) (\<lambda>s2.
     linear_shape (reg_size d) 2 s2))"

definition predict_actions_shape ::
  "sigreg_dims \<Rightarrow> shape \<Rightarrow> shape \<Rightarrow> shape \<Rightarrow> py_error + shape \<times> shape" where
  "predict_actions_shape d logsig local battery_trace =
     and_then (tail1_newaxis battery_trace) (\<lambda>channel.
     and_then (cat_last [logsig, local, channel]) (\<lambda>combined.
     and_then (sig_fc_shape d combined) (\<lambda>actions.
     and_then (select_last actions) (\<lambda>grid.
     and_then (select_last actions) (\<lambda>solar. Inr (grid, solar))))))"

fun e_loop_shape ::
  "sigreg_dims \<Rightarrow> seq_battery_shapes \<Rightarrow> shape \<Rightarrow> shape \<Rightarrow> shape \<Rightarrow> shape \<Rightarrow> shape \<Rightarrow>
   nat \<Rightarrow> shape \<Rightarrow> py_error + shape" where
  "e_loop_shape d bat logsig local pv pr peak_ind 0 battery_trace = Inr battery_trace"
| "e_loop_shape d bat logsig local pv pr peak_ind (Suc n) battery_trace =
     and_then (predict_actions_shape d logsig local battery_trace) (\<lambda>(grid, solar).
     and_then (forward_shapes bat grid solar pv pr peak_ind) (\<lambda>(battery_trace', _).
     e_loop_shape d bat logsig local pv pr peak_ind n battery_trace'))"

definition sigreg_forward_shape ::
  "sigreg_dims \<Rightarrow> seq_battery_shapes \<Rightarrow> int \<Rightarrow> shape \<Rightarrow> shape \<Rightarrow> shape \<Rightarrow> shape \<Rightarrow>
   py_error + shape \<times> shape \<times> shape \<times> shape" where
  "sigreg_forward_shape d bat iters x pv pr peak_ind =
     and_then (features_shape d x) (\<lambda>(logsig, local).
     and_then (e_loop_shape d bat logsig local pv pr peak_ind (nat iters)
             (neutral_trace_shape bat (x ! 0) (x ! 1))) (\<lambda>battery_trace.
     and_then (predict_actions_shape d logsig local battery_trace) (\<lambda>(grid, solar).
     and_then (tail1 battery_trace) (\<lambda>estimated.
     and_then (static_forward_shapes bat estimated grid solar pv pr peak_ind) (\<lambda>(fantasy, costs).
     Inr (grid, solar, battery_trace, costs))))))"

text \<open>An instance: batch 2, three time steps, five features; a simulator whose traces
  carry the initial state in front, as the slice \<^verbatim>\<open>battery_trace[:, 1:]\<close> of the
  controller expects.\<close>

definition demo_dims :: discrete_dims where
  "demo_dims = \<lparr>input_size = 5, hidden_size = 8, fc_size = 4, bidirectional = False\<rparr>"

definition demo_battery_shapes :: battery_shapes where
  "demo_battery_shapes =
     \<lparr>initial_state_shape = (\<lambda>B. [B, 1]),
      random_initial_state_shape = (\<lambda>B. [B, 1]),
      call_shapes = (\<lambda>bs grid solar pv_t pr_t peak_t. Inr (bs, bs))\<rparr>"

definition demo_sig_dims :: sigreg_dims where
  "demo_sig_dims =
     \<lparr>sig_input_size = 5, gc_logsig_channels = 6, sig_hidden_size = 8, reg_size = 4\<rparr>"

definition demo_seq_shapes :: seq_battery_shapes where
  "demo_seq_shapes =
     \<lparr>neutral_trace_shape = (\<lambda>B T. [B, Suc T]),
      forward_shapes = (\<lambda>grid solar pv pr peak.
        case grid of [B, T] \<Rightarrow> Inr ([B, Suc T], [B, T]) | _ \<Rightarrow> Inl RuntimeError),
      static_forward_shapes = (\<lambda>est grid solar pv pr peak. Inr (est, grid))\<rparr>"

section \<open>The deployment adapter\<close>

text \<open>
  \<^verbatim>\<open>Calibration.act\<close> of \<^verbatim>\<open>trading_track/calibration.py\<close>. A field value is a
  number or NaN, written \<open>None\<close>. The external and the internal state are dictionaries;
  a row of the data frame (\<^verbatim>\<open>current\<close>, and each stored record) is the list of
  its columns with their values. The list \<^verbatim>\<open>active_columns\<close>, the preprocessor
  and the recurrent model are imported from modules that are not among the sources and
  are parameters; \<^verbatim>\<open>self.means\<close> holds a value, possibly NaN, for every active
  column. \<open>self_h\<close> is the attribute \<^verbatim>\<open>self.h\<close>.
\<close>

type_synonym field = "real option"
type_synonym row = "(string \<times> field) list"

record ('f, 'h) calibration =
  active_columns :: "string list"
  means :: "string \<Rightarrow> field"
  historical_states :: "row list"
  transform :: "row \<Rightarrow> py_error + 'f"
  model_step_forward :: "real \<Rightarrow> 'f \<Rightarrow> 'h \<Rightarrow> real \<times> real \<times> 'h"
  self_h :: 'h

text \<open>The loop over \<^verbatim>\<open>active_columns\<close>: the value of the external state where the
  key is present, the mean where it is not.\<close>

definition fill_current :: "string list \<Rightarrow> (string \<Rightarrow> field) \<Rightarrow> (string \<rightharpoonup> field) \<Rightarrow> row" where
  "fill_current cols mu external_state =
     map (\<lambda>key. (key, case external_state key of Some v \<Rightarrow> v | None \<Rightarrow> mu key)) cols"

text \<open>\<^verbatim>\<open>Series.fillna(other)\<close>: a NaN is replaced by the value that \<open>other\<close> has
  under the same label, a number is kept.\<close>

definition fillna :: "row \<Rightarrow> (string \<Rightarrow> field) \<Rightarrow> row" where
  "fillna current other =
     map (\<lambda>(key, v). (key, case v of None \<Rightarrow> other key | Some x \<Rightarrow> Some x)) current"

definition series_get :: "row \<Rightarrow> string \<Rightarrow> field" where
  "series_get r key = (case map_of r key of Some v \<Rightarrow> v | None \<Rightarrow> None)"

definition current_row ::
  "string list \<Rightarrow> (string \<Rightarrow> field) \<Rightarrow> row list \<Rightarrow> (string \<rightharpoonup> field) \<Rightarrow> row" where
  "current_row cols mu hist external_state =
     (let current = fill_current cols mu external_state
      in if length hist > 0
         then fillna current (series_get (last hist))
         else fillna current mu)"

text \<open>
  \<^verbatim>\<open>act\<close> returns the two charges or raises, and in both cases leaves the adapter
  in a new state: the record is stored before the preprocessor runs. Reading a key that
  a dictionary or the frame does not have raises \<open>KeyError\<close>.
\<close>

definition act ::
  "('f, 'h) calibration \<Rightarrow> (string \<rightharpoonup> field) \<Rightarrow> (string \<rightharpoonup> real) \<Rightarrow>
   (py_error + field \<times> real) \<times> ('f, 'h) calibration" where
  "act self external_state internal_state =
     (let current = current_row (active_columns self) (means self)
                      (historical_states self) external_state
      in if ''timestamp'' \<notin> set (active_columns self) then (Inl KeyError, self)
         else
           (let self1 = self\<lparr>historical_states := historical_states self @ [current]\<rparr>
            in case transform self current of
                 Inl e \<Rightarrow> (Inl e, self1)
               | Inr state \<Rightarrow>
                   (case internal_state ''battery_soc'' of
                      None \<Rightarrow> (Inl KeyError, self1)
                    | Some battery_soc \<Rightarrow>
                        (let (grid, pv_act, h') =
                               model_step_forward self battery_soc state (self_h self);
                             self2 = self1\<lparr>self_h := h'\<rparr>
                         in case internal_state ''max_charge_rate'' of
                              None \<Rightarrow> (Inl KeyError, self2)
                            | Some cr \<Rightarrow>
                                (case external_state ''pv_power'' of
                                   None \<Rightarrow> (Inl KeyError, self2)
                                 | Some pv_power \<Rightarrow>
                                     (Inr (map_option (\<lambda>p. pv_act * p) pv_power,
                                           grid * cr), self2))))))"

text \<open>
  The filling in the words of the specification: a missing field takes the last
  observed value when there is one, and the training-set mean otherwise.
\<close>

definition spec_fill ::
  "(string \<Rightarrow> field) \<Rightarrow> row list \<Rightarrow> (string \<rightharpoonup> field) \<Rightarrow> string \<Rightarrow> field" where
  "spec_fill mu hist external_state key =
     (case external_state key of
        Some (Some v) \<Rightarrow> Some v
      | _ \<Rightarrow> if hist \<noteq> [] then series_get (last hist) key else mu key)"

text \<open>An adapter that has seen one record, and an external state without the price.\<close>

definition demo_calibration :: "(row, unit) calibration" where
  "demo_calibration =
     \<lparr>active_columns = [''timestamp'', ''price'', ''pv_power''],
      means = (\<lambda>key. if key = ''price'' then Some 3 else Some 1),
      historical_states = [[(''timestamp'', Some 1), (''price'', Some 5), (''pv_power'', Some 2)]],
      transform = (\<lambda>r. Inr r),
      model_step_forward = (\<lambda>soc state hid. (1, 1, hid)),
      self_h = ()\<rparr>"

definition demo_external :: "string \<rightharpoonup> field" where
  "demo_external = [''timestamp'' \<mapsto> Some 2, ''pv_power'' \<mapsto> Some 4]"

definition demo_internal :: "string \<rightharpoonup> real" where
  "demo_internal = [''battery_soc'' \<mapsto> 5, ''max_charge_rate'' \<mapsto> 5]"

section \<open>Properties of the action table\<close>

lemma argmax_from_bound:
  "best < i \<Longrightarrow> argmax_from best bv i xs < i + length xs"
proof (induction xs arbitrary: best bv i)
  case Nil
  then show ?case by simp
next
  case (Cons x xs)
  have a: "argmax_from i x (Suc i) xs < Suc i + length xs"
    by (rule Cons.IH) simp
  have b: "argmax_from best bv (Suc i) xs < Suc i + length xs"
    by (rule Cons.IH) (use Cons.prems in simp)
  from a b show ?case by simp
qed

lemma argmax_last_bound: "out \<noteq> [] \<Longrightarrow> argmax_last out < length out"
  using argmax_from_bound [of 0 1] by (cases out) (auto simp: argmax_last_def)

lemma argmax_from_max:
  "best < i \<Longrightarrow> ys ! best = bv \<Longrightarrow> length ys = i \<Longrightarrow> \<forall>k<i. ys ! k \<le> bv \<Longrightarrow>
   \<forall>k < i + length xs. (ys @ xs) ! k \<le> (ys @ xs) ! argmax_from best bv i xs"
proof (induction xs arbitrary: best bv i ys)
  case Nil
  then show ?case by simp
next
  case (Cons x xs)
  show ?case
  proof (cases "bv < x")
    case True
    have "\<forall>k < Suc i + length xs.
            ((ys @ [x]) @ xs) ! k \<le> ((ys @ [x]) @ xs) ! argmax_from i x (Suc i) xs"
    proof (rule Cons.IH)
      show "i < Suc i" by simp
      show "(ys @ [x]) ! i = x" using Cons.prems(3) [symmetric] by simp
      show "length (ys @ [x]) = Suc i" using Cons.prems(3) by simp
      show "\<forall>k<Suc i. (ys @ [x]) ! k \<le> x"
        using Cons.prems True by (auto simp: nth_append less_Suc_eq)
    qed
    with True show ?thesis by simp
  next
    case False
    have "\<forall>k < Suc i + length xs.
            ((ys @ [x]) @ xs) ! k \<le> ((ys @ [x]) @ xs) ! argmax_from best bv (Suc i) xs"
    proof (rule Cons.IH)
      show "best < Suc i" using Cons.prems(1) by simp
      show "(ys @ [x]) ! best = bv" using Cons.prems by (simp add: nth_append)
      show "length (ys @ [x]) = Suc i" using Cons.prems(3) by simp
      show "\<forall>k<Suc i. (ys @ [x]) ! k \<le> bv"
        using Cons.prems False by (auto simp: nth_append less_Suc_eq)
    qed
    with False show ?thesis by simp
  qed
qed

lemma argmax_last_max:
  assumes "k < length out"
  shows "out ! k \<le> out ! argmax_last out"
proof (cases out)
  case Nil
  with assms show ?thesis by simp
next
  case (Cons x xs)
  have "\<forall>k < 1 + length xs. ([x] @ xs) ! k \<le> ([x] @ xs) ! argmax_from 0 x 1 xs"
    by (rule argmax_from_max) auto
  with assms Cons show ?thesis by (simp add: argmax_last_def)
qed

lemma argmax_from_first:
  "best < i \<Longrightarrow> ys ! best = bv \<Longrightarrow> length ys = i \<Longrightarrow> \<forall>k<best. ys ! k < bv \<Longrightarrow>
   \<forall>k<i. ys ! k \<le> bv \<Longrightarrow>
   \<forall>k < argmax_from best bv i xs. (ys @ xs) ! k < (ys @ xs) ! argmax_from best bv i xs"
proof (induction xs arbitrary: best bv i ys)
  case Nil
  then show ?case by simp
next
  case (Cons x xs)
  show ?case
  proof (cases "bv < x")
    case True
    have "\<forall>k < argmax_from i x (Suc i) xs.
            ((ys @ [x]) @ xs) ! k < ((ys @ [x]) @ xs) ! argmax_from i x (Suc i) xs"
    proof (rule Cons.IH)
      show "i < Suc i" by simp
      show "(ys @ [x]) ! i = x" using Cons.prems(3) [symmetric] by simp
      show "length (ys @ [x]) = Suc i" using Cons.prems(3) by simp
      show "\<forall>k<i. (ys @ [x]) ! k < x"
        using Cons.prems True by (auto simp: nth_append)
      show "\<forall>k<Suc i. (ys @ [x]) ! k \<le> x"
        using Cons.prems True by (auto simp: nth_append less_Suc_eq)
    qed
    with True show ?thesis by simp
  next
    case False
    have "\<forall>k < argmax_from best bv (Suc i) xs.
            ((ys @ [x]) @ xs) ! k < ((ys @ [x]) @ xs) ! argmax_from best bv (Suc i) xs"
    proof (rule Cons.IH)
      show "best < Suc i" using Cons.prems(1) by simp
      show "(ys @ [x]) ! best = bv" using Cons.prems by (simp add: nth_append)
      show "length (ys @ [x]) = Suc i" using Cons.prems(3) by simp
      show "\<forall>k<best. (ys @ [x]) ! k < bv"
        using Cons.prems by (auto simp: nth_append)
      show "\<forall>k<Suc i. (ys @ [x]) ! k \<le> bv"
        using Cons.prems False by (auto simp: nth_append less_Suc_eq)
    qed
    with False show ?thesis by simp
  qed
qed

lemma argmax_last_first:
  assumes "k < argmax_last out"
  shows "out ! k < out ! argmax_last out"
proof (cases out)
  case Nil
  with assms show ?thesis by (simp add: argmax_last_def)
next
  case (Cons x xs)
  have "\<forall>k < argmax_from 0 x 1 xs. ([x] @ xs) ! k < ([x] @ xs) ! argmax_from 0 x 1 xs"
    by (rule argmax_from_first) auto
  with assms Cons show ?thesis by (simp add: argmax_last_def)
qed

lemma argmax_last_seven:
  assumes "length out = 7"
  shows "argmax_last out \<in> {0, 1, 2, 3, 4, 5, 6}"
proof -
  have "out \<noteq> []" using assms by auto
  then have "argmax_last out < 7" using argmax_last_bound [of out] assms by simp
  then show ?thesis by auto
qed

lemma hard_action_in_range:
  assumes "length out = 7"
  shows "- 1 \<le> fst (hard_action out) \<and> fst (hard_action out) \<le> 1
         \<and> 0 \<le> snd (hard_action out) \<and> snd (hard_action out) \<le> 1"
  using argmax_last_seven [OF assms]
  by (auto simp: hard_action_def policy_matrix_def)

text \<open>
  Claim C3. The table is the documented one, row by row. For every vector of seven
  logits the index chosen in hard mode is a row index, it is the first index that holds
  the maximum, and the selected pair is that row of the table; so index 0 gives
  (1.0, 1.0) and index 6 gives (-1.0, 0.0).
\<close>

theorem hard_action_is_table_row:
  assumes "length out = 7"
  shows "policy_matrix =
           [[1, 1], [0.5, 1], [0, 1], [0, 0.5], [0, 0], [- 0.5, 0], [- 1, 0]]
         \<and> argmax_last out < 7
         \<and> (\<forall>k<7. out ! k \<le> out ! argmax_last out)
         \<and> (\<forall>k<argmax_last out. out ! k < out ! argmax_last out)
         \<and> hard_action out
             = (policy_matrix ! argmax_last out ! 0, policy_matrix ! argmax_last out ! 1)
         \<and> select_actions True [out] = ([fst (hard_action out)], [snd (hard_action out)])
         \<and> (argmax_last out = 0 \<longrightarrow> hard_action out = (1, 1))
         \<and> (argmax_last out = 6 \<longrightarrow> hard_action out = (- 1, 0))"
proof -
  have a: "argmax_last out < 7" using argmax_last_seven [OF assms] by auto
  have b: "\<forall>k<7. out ! k \<le> out ! argmax_last out"
    using argmax_last_max [of _ out] assms by simp
  have c: "\<forall>k<argmax_last out. out ! k < out ! argmax_last out"
    using argmax_last_first [of _ out] by simp
  have d: "policy_matrix =
           [[1, 1], [0.5, 1], [0, 1], [0, 0.5], [0, 0], [- 0.5, 0], [- 1, 0]]"
    by (simp add: policy_matrix_def)
  have e: "argmax_last out = 0 \<longrightarrow> hard_action out = (1, 1)"
    by (simp add: hard_action_def policy_matrix_def)
  have f: "argmax_last out = 6 \<longrightarrow> hard_action out = (- 1, 0)"
    by (simp add: hard_action_def policy_matrix_def)
  have g: "hard_action out
             = (policy_matrix ! argmax_last out ! 0, policy_matrix ! argmax_last out ! 1)"
    by (simp add: hard_action_def Let_def)
  have h: "select_actions True [out] = ([fst (hard_action out)], [snd (hard_action out)])"
    by (simp add: select_actions_def)
  from a b c d e f g h show ?thesis by blast
qed

theorem hard_action_is_table_row_witness:
  "length [0, 0, 0, 0, 0, 0, 1 :: real] = 7
   \<and> argmax_last [0, 0, 0, 0, 0, 0, 1] = 6
   \<and> hard_action [0, 0, 0, 0, 0, 0, 1] = (- 1, 0)
   \<and> argmax_last [3, 0, 0, 0, 0, 0, 0] = 0
   \<and> hard_action [3, 0, 0, 0, 0, 0, 0] = (1, 1)"
proof -
  have l: "length [0, 0, 0, 0, 0, 0, 1 :: real] = 7" by simp
  have l': "length [3, 0, 0, 0, 0, 0, 0 :: real] = 7" by simp
  have a: "argmax_last [0, 0, 0, 0, 0, 0, 1] = 6" by (simp add: argmax_last_def)
  have a': "argmax_last [3, 0, 0, 0, 0, 0, 0] = 0" by (simp add: argmax_last_def)
  from hard_action_is_table_row [OF l] hard_action_is_table_row [OF l'] a a' l
  show ?thesis by (simp add: policy_matrix_def)
qed

section \<open>The beta schedule\<close>

lemma round_up_div:
  fixes N a :: int
  assumes "0 < N"
  shows "(a + N - 1) div N = a div N + (if a mod N = 0 then 0 else 1)"
proof -
  have N0: "N \<noteq> 0" using assms by simp
  have "(a + N - 1) div N = ((a mod N + N - 1) + N * (a div N)) div N"
    by (rule arg_cong [where f = "\<lambda>x. x div N"]) simp
  also have "\<dots> = a div N + (a mod N + N - 1) div N"
    by (rule div_mult_self2 [OF N0])
  finally have split: "(a + N - 1) div N = a div N + (a mod N + N - 1) div N" .
  have "(a mod N + N - 1) div N = (if a mod N = 0 then 0 else 1)"
  proof (cases "a mod N = 0")
    case True
    then show ?thesis using assms by (simp add: div_pos_pos_trivial)
  next
    case False
    have s: "0 \<le> a mod N" "a mod N < N" using assms by simp_all
    have r: "0 \<le> a mod N - 1" "a mod N - 1 < N"
      using s False by linarith+
    have "(a mod N + N - 1) div N = ((a mod N - 1) + N * 1) div N"
      by (rule arg_cong [where f = "\<lambda>x. x div N"]) simp
    also have "\<dots> = 1 + (a mod N - 1) div N"
      by (rule div_mult_self2 [OF N0])
    also have "(a mod N - 1) div N = 0"
      using r by (simp add: div_pos_pos_trivial)
    finally show ?thesis using False by simp
  qed
  with split show ?thesis by simp
qed

lemma ceiling_as_div:
  fixes N :: int
  assumes "0 < N"
  shows "\<lceil>real K / of_int N\<rceil> = (int K + N - 1) div N"
proof -
  have "\<lceil>real K / of_int N\<rceil> = \<lceil>(of_int (int K) :: real) / of_int N\<rceil>" by simp
  also have "\<dots> = - (- int K div N)" by (rule ceiling_divide_eq_div)
  also have "\<dots> = int K div N + (if int K mod N = 0 then 0 else 1)"
    using assms by (simp add: zdiv_zminus1_eq_if)
  also have "\<dots> = (int K + N - 1) div N"
    using round_up_div [OF assms, of "int K"] by simp
  finally show ?thesis .
qed

text \<open>One more completed epoch raises the rounded-up quotient exactly when the index of
  the epoch that ended is a multiple of the interval.\<close>

lemma ceiling_Suc:
  fixes N :: int
  assumes "0 < N"
  shows "\<lceil>real (Suc K) / of_int N\<rceil>
           = \<lceil>real K / of_int N\<rceil> + (if int K mod N = 0 then 1 else 0)"
proof -
  have N0: "N \<noteq> 0" using assms by simp
  have "\<lceil>real (Suc K) / of_int N\<rceil> = (int (Suc K) + N - 1) div N"
    by (rule ceiling_as_div [OF assms])
  also have "\<dots> = (int K + N * 1) div N"
    by (rule arg_cong [where f = "\<lambda>x. x div N"]) simp
  also have "\<dots> = 1 + int K div N" by (rule div_mult_self2 [OF N0])
  finally have a: "\<lceil>real (Suc K) / of_int N\<rceil> = 1 + int K div N" .
  have "\<lceil>real K / of_int N\<rceil> = int K div N + (if int K mod N = 0 then 0 else 1)"
    using ceiling_as_div [OF assms, of K] round_up_div [OF assms, of "int K"] by simp
  with a show ?thesis by simp
qed

lemma beta_after_update [simp]:
  "beta_after fadd (m\<lparr>beta := b\<rparr>) n = beta_after fadd m n"
  by (simp add: beta_after_def)

lemma beta_after_Suc:
  "beta_after fadd m (Suc n) = min (fadd (beta_after fadd m n) (beta_increment m)) (beta_max m)"
  by (simp add: beta_after_def)

text \<open>The number of updates after \<open>e\<close> epochs, and how one more epoch changes it.\<close>

lemma updates_Suc:
  fixes N :: int
  assumes "0 < N"
  shows "nat \<lceil>real (Suc e) / of_int N\<rceil>
           = (if int e mod N = 0 then Suc (nat \<lceil>real e / of_int N\<rceil>)
              else nat \<lceil>real e / of_int N\<rceil>)"
proof -
  have "(0::real) \<le> real e / of_int N" using assms by simp
  then have "0 \<le> \<lceil>real e / of_int N\<rceil>" by (simp add: zero_le_ceiling)
  then show ?thesis using ceiling_Suc [OF assms, of e] by (simp add: nat_add_distrib)
qed

lemma run_epochs_beta:
  "0 < increase_beta_per_n_epoch m \<Longrightarrow>
   beta m = Some (beta_after fadd m (nat \<lceil>real e / of_int (increase_beta_per_n_epoch m)\<rceil>)) \<Longrightarrow>
   run_epochs fadd (int e) k m
     = Inr (m\<lparr>beta := Some (beta_after fadd m
                 (nat \<lceil>real (e + k) / of_int (increase_beta_per_n_epoch m)\<rceil>))\<rparr>)"
proof (induction k arbitrary: e m)
  case 0
  then show ?case by simp
next
  case (Suc k)
  let ?N = "increase_beta_per_n_epoch m"
  let ?m' = "m\<lparr>beta := Some (beta_after fadd m (nat \<lceil>real (Suc e) / of_int ?N\<rceil>))\<rparr>"
  have step: "on_train_epoch_end fadd (int e) m = Inr ?m'"
    using Suc.prems updates_Suc [of ?N e]
    by (auto simp: on_train_epoch_end_def beta_after_Suc)
  have "run_epochs fadd (int (Suc e)) k ?m'
          = Inr (?m'\<lparr>beta := Some (beta_after fadd ?m'
                   (nat \<lceil>real (Suc e + k) / of_int (increase_beta_per_n_epoch ?m')\<rceil>))\<rparr>)"
    by (rule Suc.IH) (use Suc.prems in simp_all)
  with step show ?case by (simp add: add.commute)
qed

lemma fit_beta:
  assumes "0 < increase_beta_per_n_epoch m"
  shows "fit fadd K m
           = Inr (m\<lparr>beta := Some (beta_after fadd m
                       (nat \<lceil>real K / of_int (increase_beta_per_n_epoch m)\<rceil>))\<rparr>)"
proof -
  have "run_epochs fadd (int 0) K (on_train_start m)
     = Inr ((on_train_start m)\<lparr>beta := Some (beta_after fadd (on_train_start m)
              (nat \<lceil>real (0 + K) / of_int (increase_beta_per_n_epoch (on_train_start m))\<rceil>))\<rparr>)"
    using assms
    by (intro run_epochs_beta) (simp_all add: on_train_start_def reset_beta_def beta_after_def)
  then show ?thesis by (simp add: fit_def on_train_start_def reset_beta_def)
qed

text \<open>Where the additions are exact, the repeated update has the closed form of the
  specification, with the number of updates in the place of the quotient.\<close>

lemma beta_after_exact:
  assumes le: "beta_min m \<le> beta_max m"
  shows "beta_after (+) m n = min (beta_min m + beta_increment m * real n) (beta_max m)"
proof (induction n)
  case 0
  then show ?case using le by (simp add: beta_after_def)
next
  case (Suc n)
  have key: "min (min (beta_min m + beta_increment m * real n) (beta_max m) + beta_increment m)
                 (beta_max m)
             = min (beta_min m + beta_increment m * (real n + 1)) (beta_max m)"
  proof (cases "0 \<le> beta_increment m")
    case True
    then show ?thesis by (simp add: min_def algebra_simps)
  next
    case False
    then have "beta_increment m * real n \<le> 0" by (simp add: mult_nonpos_nonneg)
    with le False show ?thesis by (simp add: min_def algebra_simps)
  qed
  show ?case
    unfolding beta_after_Suc Suc.IH using key by (simp add: add.commute)
qed

text \<open>
  Claim C2, as amended. With an interval \<open>N \<ge> 1\<close>, after \<open>K\<close> completed epochs of a
  training run beta is the floor updated \<open>\<lceil>K / N\<rceil>\<close> times by the hook, each update one
  float addition of the increment followed by the minimum with the ceiling: the hook
  fires at the end of the epochs whose index, counted from 0, is a multiple of \<open>N\<close>, so
  the quotient is rounded up, not down. This holds for the rounding addition of the
  machine. Where the additions are exact and the floor is not above the ceiling, the
  value is \<open>min (beta_min + \<Delta> * \<lceil>K / N\<rceil>) beta_max\<close>. Before any epoch has ended beta is
  \<open>beta_min\<close>, and \<open>reset_beta\<close> restores \<open>beta_min\<close> from any state.
\<close>

theorem beta_schedule_rounds_up:
  assumes "0 < increase_beta_per_n_epoch m"
  shows "fit fadd K m
           = Inr (m\<lparr>beta := Some (beta_after fadd m
                       (nat \<lceil>real K / of_int (increase_beta_per_n_epoch m)\<rceil>))\<rparr>)
         \<and> (beta_min m \<le> beta_max m \<longrightarrow>
              beta_after (+) m n = min (beta_min m + beta_increment m * real n) (beta_max m))
         \<and> fit fadd 0 m = Inr (m\<lparr>beta := Some (beta_min m)\<rparr>)
         \<and> beta (reset_beta m) = Some (beta_min m)"
  using fit_beta [OF assms, of fadd K] beta_after_exact [of m n]
  by (simp add: fit_def on_train_start_def reset_beta_def)

theorem beta_schedule_rounds_up_witness:
  "0 < increase_beta_per_n_epoch example_schedule
   \<and> nat \<lceil>real 3 / of_int (increase_beta_per_n_epoch example_schedule)\<rceil> = 2
   \<and> fit (+) 3 example_schedule = Inr (example_schedule\<lparr>beta := Some 1\<rparr>)
   \<and> beta_after (+) example_schedule 2 = 1
   \<and> fit (+) 0 example_schedule = Inr (example_schedule\<lparr>beta := Some 0.5\<rparr>)
   \<and> beta (reset_beta (example_schedule\<lparr>beta := None\<rparr>)) = Some 0.5"
proof -
  have N: "0 < increase_beta_per_n_epoch example_schedule"
    by (simp add: example_schedule_def)
  have c: "nat \<lceil>real 3 / of_int (increase_beta_per_n_epoch example_schedule)\<rceil> = 2"
    by (simp add: example_schedule_def)
  have b: "beta_after (+) example_schedule 2 = 1"
    by (simp add: beta_after_def example_schedule_def numeral_2_eq_2)
  have r: "beta (reset_beta (example_schedule\<lparr>beta := None\<rparr>)) = Some 0.5"
    by (simp add: reset_beta_def example_schedule_def)
  from beta_schedule_rounds_up [OF N, of "(+)" 3 2] N c b r show ?thesis
    by (simp add: example_schedule_def)
qed

text \<open>
  The claim as stated fails: with interval 2, one completed epoch already raises beta
  from 0.5 to 0.75, while the stated formula gives \<open>min (0.5 + 0.25 * \<lfloor>1 / 2\<rfloor>) 5 = 0.5\<close>.
  All these values are binary fractions and the additions on them are exact.
\<close>

theorem beta_schedule_floor_counterexample:
  "fit (+) 1 example_schedule = Inr (example_schedule\<lparr>beta := Some 0.75\<rparr>)
   \<and> spec_beta example_schedule 1 = 0.5"
  by (simp add: fit_def on_train_start_def reset_beta_def on_train_epoch_end_def
      spec_beta_def example_schedule_def)

section \<open>Action selection in the discrete controller\<close>

lemma forward_loop_length:
  "length (forward_loop net bat hard b x pv pr peak_ind ixs h0 bs) = length ixs"
  by (induction ixs arbitrary: h0 bs) (simp_all add: Let_def split: prod.splits)

lemma forward_loop_select:
  "s \<in> set (forward_loop net bat hard b x pv pr peak_ind ixs h0 bs) \<Longrightarrow>
   (grid_action s, pv_action s) = select_actions hard (logits s)"
proof (induction ixs arbitrary: h0 bs)
  case Nil
  then show ?case by simp
next
  case (Cons i ixs)
  then show ?case
    by (auto simp: Let_def split: prod.splits)
qed

lemma forward_steps_length:
  "length (fst (forward_steps m net bat x pv pr peak_ind hard w)) = size1 x"
  by (simp add: forward_steps_def Let_def forward_loop_length split: prod.splits)

lemma forward_steps_select:
  "s \<in> set (fst (forward_steps m net bat x pv pr peak_ind hard w)) \<Longrightarrow>
   (grid_action s, pv_action s) = select_actions hard (logits s)"
  by (auto simp: forward_steps_def Let_def split: prod.splits if_splits
      dest: forward_loop_select)

lemma step_forward_select:
  "discrete_step_forward m net bat bs x_t h0 =
     (fst (select_actions (\<not> semi_discrete m) (step_logits net bat bs x_t h0)),
      snd (select_actions (\<not> semi_discrete m) (step_logits net bat bs x_t h0)),
      bs,
      snd (encoder net x_t (map (\<lambda>s. s / capacity_kWh bat) bs) h0))"
  by (simp add: discrete_step_forward_def step_logits_def select_actions_def Let_def
      split: prod.splits)


lemma upt_two: "[0..<2] = [0, Suc 0]"
  by (simp add: numeral_2_eq_2)

lemmas demo_defs =
  demo_discrete_def demo_nets_def demo_battery_def demo_x_def demo_pv_def demo_peak_def


section \<open>The action ranges of the real-valued functions\<close>

text \<open>
  What follows is about the real functions that the float kernels approximate, not
  about the float32 program. For seven real logits the softmax weights are non-negative
  and sum to one, so the soft action, a weighted mean of the table's rows, has its grid
  component in [-1, 1] and its solar component in [0, 1]; and \<open>tanh\<close> and \<open>sigmoid\<close>
  take their values in (-1, 1) and (0, 1). In float32 the softmax and the product with
  the table round, and a soft action can leave its interval by a rounding error (at the
  logits 0, 1, 0, -100, -100, -100, -100 the solar action comes out as
  1.0000001192092896), so none of this bounds what the program emits. Only the hard
  action is exact on the machine: it is a row of the table.
\<close>

lemma sum_list_scaled: "sum_list (map (\<lambda>x. f x / (s::real)) xs) = sum_list (map f xs) / s"
  by (induction xs) (simp_all add: add_divide_distrib)

lemma sum_list_exp_nonneg: "0 \<le> sum_list (map exp (xs :: real list))"
  by (induction xs) simp_all

lemma sum_list_exp_pos: "xs \<noteq> [] \<Longrightarrow> 0 < sum_list (map exp (xs :: real list))"
proof (cases xs)
  case Nil
  assume "xs \<noteq> []"
  with Nil show ?thesis by simp
next
  case (Cons a as)
  have "0 < exp a" by simp
  then have "0 < exp a + sum_list (map exp as)"
    using sum_list_exp_nonneg [of as] by (rule add_pos_nonneg)
  with Cons show ?thesis by simp
qed

lemma softmax_sum: "out \<noteq> [] \<Longrightarrow> sum_list (softmax out) = 1"
  using sum_list_exp_pos [of out] by (simp add: softmax_def sum_list_scaled)

lemma softmax_nonneg: "p \<in> set (softmax out) \<Longrightarrow> 0 \<le> p"
  using sum_list_exp_nonneg [of out] by (auto simp: softmax_def)

lemma length_softmax [simp]: "length (softmax out) = length out"
  by (simp add: softmax_def)

lemma dot_bounds:
  assumes "length p = length c" "\<forall>w \<in> set p. 0 \<le> w" "\<forall>v \<in> set c. lo \<le> v \<and> v \<le> hi"
  shows "lo * sum_list p \<le> dot p c \<and> dot p c \<le> hi * sum_list p"
  using assms unfolding dot_def
proof (induction p c rule: list_induct2)
  case Nil
  then show ?case by simp
next
  case (Cons w p v c)
  have "lo * w \<le> w * v" "w * v \<le> hi * w"
    using Cons.prems by (simp_all add: mult.commute [of w v] mult_right_mono)
  moreover have "lo * sum_list p \<le> sum_list (map2 (*) p c)
                 \<and> sum_list (map2 (*) p c) \<le> hi * sum_list p"
    using Cons by simp
  ultimately show ?case by (simp add: algebra_simps)
qed

lemma real_soft_action_in_range:
  assumes "length out = 7"
  shows "- 1 \<le> fst (soft_action out) \<and> fst (soft_action out) \<le> 1
         \<and> 0 \<le> snd (soft_action out) \<and> snd (soft_action out) \<le> 1"
proof -
  have ne: "out \<noteq> []" using assms by auto
  have g: "(- 1) * sum_list (softmax out) \<le> dot (softmax out) (column 0 policy_matrix)
        \<and> dot (softmax out) (column 0 policy_matrix) \<le> 1 * sum_list (softmax out)"
    by (rule dot_bounds) (auto simp: assms column_def policy_matrix_def softmax_nonneg)
  have s: "0 * sum_list (softmax out) \<le> dot (softmax out) (column 1 policy_matrix)
        \<and> dot (softmax out) (column 1 policy_matrix) \<le> 1 * sum_list (softmax out)"
    by (rule dot_bounds) (auto simp: assms column_def policy_matrix_def softmax_nonneg)
  from g s show ?thesis
    by (simp add: soft_action_def vec_matmul_def softmax_sum [OF ne] upt_two)
qed

lemma real_sigmoid_bounds: "0 < sigmoid x \<and> sigmoid x < 1"
proof -
  have "0 < exp (- x)" by simp
  then show ?thesis by (simp add: sigmoid_def add_pos_pos)
qed

lemma real_tanh_bounds: "- 1 < tanh (x::real) \<and> tanh x < 1"
  using tanh_real_gt_neg1 [of x] tanh_real_lt_1 [of x] by simp

section \<open>The estimation loop of the signature controller\<close>

text \<open>A replay of the estimation loop, as it is logged.\<close>

lemma e_step_world:
  "calls (snd (e_step bat grid pv_act pv pr peak_ind w))
     = calls w @ [\<lparr>sim_method = Forward, sim_grid_action = grid, sim_pv_action = pv_act,
                   sim_beta = None, sim_random_initial_state = Some True,
                   sim_grad_enabled = grad_enabled w\<rparr>]
   \<and> grad_enabled (snd (e_step bat grid pv_act pv pr peak_ind w)) = grad_enabled w"
  by (simp add: e_step_def Let_def split: prod.splits)

lemma e_step_trace:
  "fst (fst (e_step bat grid pv_act pv pr peak_ind w))
     = fst (fst (seq_forward bat grid pv_act pv pr None True peak_ind (rng w)))"
  by (simp add: e_step_def Let_def split: prod.splits)

lemma m_step_world:
  "calls (snd (m_step m bat grid pv_act est pv pr peak_ind w))
     = calls w @ [\<lparr>sim_method = StaticForward, sim_grid_action = map (map tanh) grid,
                   sim_pv_action = map (map sigmoid) pv_act, sim_beta = beta m,
                   sim_random_initial_state = None,
                   sim_grad_enabled = grad_enabled w\<rparr>]"
  by (simp add: m_step_def Let_def split: prod.splits)

lemma sigreg_forward_world:
  "snd (sigreg_forward m net bat x pv pr peak_ind w)
     = snd (m_step m bat
              (fst (fst (sigreg_forward m net bat x pv pr peak_ind w)))
              (fst (snd (fst (sigreg_forward m net bat x pv pr peak_ind w))))
              (map tl (fst (snd (snd (fst (sigreg_forward m net bat x pv pr peak_ind w))))))
              pv pr peak_ind
              ((snd (e_loop net bat (features net x) pv pr peak_ind (nat (e_step_iters m))
                      (get_neutral_trace bat (size0 x) (size1 x))
                      (w\<lparr>grad_enabled := False\<rparr>)))\<lparr>grad_enabled := grad_enabled w\<rparr>))"
  by (simp add: sigreg_forward_def Let_def split: prod.splits)

lemma e_step_rng:
  "rng (snd (e_step bat grid pv_act pv pr peak_ind w))
     = snd (seq_forward bat grid pv_act pv pr None True peak_ind (rng w))"
  by (simp add: e_step_def Let_def split: prod.splits)

text \<open>
  The loop unrolled. \<open>trs\<close> are the trace estimates, from the initial one to the one the
  loop returns, and \<open>rs\<close> the states of the generator. Pass \<open>i\<close> predicts its actions from
  estimate \<open>i\<close>, replays them, and the trace and the generator state that the replay
  returns are estimate and state \<open>i + 1\<close>.
\<close>

lemma e_loop_unrolled:
  "\<exists>L trs rs.
      calls (snd (e_loop net bat feats pv pr peak_ind n tr w)) = calls w @ L
      \<and> length L = n \<and> length trs = Suc n \<and> length rs = Suc n
      \<and> trs ! 0 = tr \<and> rs ! 0 = rng w
      \<and> (\<forall>i<n.
            L ! i = \<lparr>sim_method = Forward,
                      sim_grid_action = fst (predict_actions net bat feats (trs ! i)),
                      sim_pv_action = snd (predict_actions net bat feats (trs ! i)),
                      sim_beta = None, sim_random_initial_state = Some True,
                      sim_grad_enabled = grad_enabled w\<rparr>
            \<and> fst (fst (seq_forward bat (fst (predict_actions net bat feats (trs ! i)))
                          (snd (predict_actions net bat feats (trs ! i)))
                          pv pr None True peak_ind (rs ! i))) = trs ! Suc i
            \<and> snd (seq_forward bat (fst (predict_actions net bat feats (trs ! i)))
                     (snd (predict_actions net bat feats (trs ! i)))
                     pv pr None True peak_ind (rs ! i)) = rs ! Suc i)
      \<and> fst (e_loop net bat feats pv pr peak_ind n tr w) = trs ! n
      \<and> rng (snd (e_loop net bat feats pv pr peak_ind n tr w)) = rs ! n
      \<and> grad_enabled (snd (e_loop net bat feats pv pr peak_ind n tr w)) = grad_enabled w"
proof (induction n arbitrary: tr w)
  case 0
  show ?case
    by (rule exI [of _ "[]"], rule exI [of _ "[tr]"], rule exI [of _ "[rng w]"]) simp
next
  case (Suc n)
  obtain grid pv_act where p: "predict_actions net bat feats tr = (grid, pv_act)"
    by (cases "predict_actions net bat feats tr")
  obtain tr' cs w' where s: "e_step bat grid pv_act pv pr peak_ind w = ((tr', cs), w')"
    by (metis surj_pair)
  let ?c = "\<lparr>sim_method = Forward, sim_grid_action = grid, sim_pv_action = pv_act,
             sim_beta = None, sim_random_initial_state = Some True,
             sim_grad_enabled = grad_enabled w\<rparr>"
  have w': "calls w' = calls w @ [?c]" "grad_enabled w' = grad_enabled w"
    using e_step_world [of bat grid pv_act pv pr peak_ind w] s by simp_all
  have tr': "fst (fst (seq_forward bat grid pv_act pv pr None True peak_ind (rng w))) = tr'"
    using e_step_trace [of bat grid pv_act pv pr peak_ind w] s by simp
  have r': "snd (seq_forward bat grid pv_act pv pr None True peak_ind (rng w)) = rng w'"
    using e_step_rng [of bat grid pv_act pv pr peak_ind w] s by simp
  have unfold: "e_loop net bat feats pv pr peak_ind (Suc n) tr w
                  = e_loop net bat feats pv pr peak_ind n tr' w'"
    using p s by simp
  from Suc.IH [of tr' w'] obtain L trs rs where
    all: "calls (snd (e_loop net bat feats pv pr peak_ind n tr' w')) = calls w' @ L
      \<and> length L = n \<and> length trs = Suc n \<and> length rs = Suc n
      \<and> trs ! 0 = tr' \<and> rs ! 0 = rng w'
      \<and> (\<forall>i<n.
            L ! i = \<lparr>sim_method = Forward,
                      sim_grid_action = fst (predict_actions net bat feats (trs ! i)),
                      sim_pv_action = snd (predict_actions net bat feats (trs ! i)),
                      sim_beta = None, sim_random_initial_state = Some True,
                      sim_grad_enabled = grad_enabled w'\<rparr>
            \<and> fst (fst (seq_forward bat (fst (predict_actions net bat feats (trs ! i)))
                          (snd (predict_actions net bat feats (trs ! i)))
                          pv pr None True peak_ind (rs ! i))) = trs ! Suc i
            \<and> snd (seq_forward bat (fst (predict_actions net bat feats (trs ! i)))
                     (snd (predict_actions net bat feats (trs ! i)))
                     pv pr None True peak_ind (rs ! i)) = rs ! Suc i)
      \<and> fst (e_loop net bat feats pv pr peak_ind n tr' w') = trs ! n
      \<and> rng (snd (e_loop net bat feats pv pr peak_ind n tr' w')) = rs ! n
      \<and> grad_enabled (snd (e_loop net bat feats pv pr peak_ind n tr' w')) = grad_enabled w'"
    by (elim exE) (rule that)
  have passes: "\<forall>i<Suc n.
            (?c # L) ! i = \<lparr>sim_method = Forward,
                      sim_grid_action = fst (predict_actions net bat feats ((tr # trs) ! i)),
                      sim_pv_action = snd (predict_actions net bat feats ((tr # trs) ! i)),
                      sim_beta = None, sim_random_initial_state = Some True,
                      sim_grad_enabled = grad_enabled w\<rparr>
            \<and> fst (fst (seq_forward bat
                          (fst (predict_actions net bat feats ((tr # trs) ! i)))
                          (snd (predict_actions net bat feats ((tr # trs) ! i)))
                          pv pr None True peak_ind ((rng w # rs) ! i))) = (tr # trs) ! Suc i
            \<and> snd (seq_forward bat (fst (predict_actions net bat feats ((tr # trs) ! i)))
                     (snd (predict_actions net bat feats ((tr # trs) ! i)))
                     pv pr None True peak_ind ((rng w # rs) ! i)) = (rng w # rs) ! Suc i"
  proof (intro allI impI)
    fix i assume i: "i < Suc n"
    show "(?c # L) ! i = \<lparr>sim_method = Forward,
                      sim_grid_action = fst (predict_actions net bat feats ((tr # trs) ! i)),
                      sim_pv_action = snd (predict_actions net bat feats ((tr # trs) ! i)),
                      sim_beta = None, sim_random_initial_state = Some True,
                      sim_grad_enabled = grad_enabled w\<rparr>
            \<and> fst (fst (seq_forward bat
                          (fst (predict_actions net bat feats ((tr # trs) ! i)))
                          (snd (predict_actions net bat feats ((tr # trs) ! i)))
                          pv pr None True peak_ind ((rng w # rs) ! i))) = (tr # trs) ! Suc i
            \<and> snd (seq_forward bat (fst (predict_actions net bat feats ((tr # trs) ! i)))
                     (snd (predict_actions net bat feats ((tr # trs) ! i)))
                     pv pr None True peak_ind ((rng w # rs) ! i)) = (rng w # rs) ! Suc i"
    proof (cases i)
      case 0
      with p tr' r' all show ?thesis by simp
    next
      case (Suc j)
      with i have "j < n" by simp
      with all Suc w'(2) show ?thesis by simp
    qed
  qed
  show ?case
  proof (intro exI [of _ "?c # L"] exI [of _ "tr # trs"] exI [of _ "rng w # rs"] conjI)
    show "calls (snd (e_loop net bat feats pv pr peak_ind (Suc n) tr w)) = calls w @ ?c # L"
      using unfold all w'(1) by simp
    show "length (?c # L) = Suc n" using all by simp
    show "length (tr # trs) = Suc (Suc n)" using all by simp
    show "length (rng w # rs) = Suc (Suc n)" using all by simp
    show "(tr # trs) ! 0 = tr" by simp
    show "(rng w # rs) ! 0 = rng w" by simp
    show "fst (e_loop net bat feats pv pr peak_ind (Suc n) tr w) = (tr # trs) ! Suc n"
      using unfold all by simp
    show "rng (snd (e_loop net bat feats pv pr peak_ind (Suc n) tr w)) = (rng w # rs) ! Suc n"
      using unfold all by simp
    show "grad_enabled (snd (e_loop net bat feats pv pr peak_ind (Suc n) tr w))
            = grad_enabled w"
      using unfold all w'(2) by simp
  qed (rule passes)
qed

text \<open>
  Claim C4. For every input and every configured \<open>e_step_iters\<close>, a forward pass makes
  exactly \<open>nat e_step_iters\<close> forward replays (that is \<open>e_step_iters\<close> itself when it is
  not negative) and then the one static replay. The estimates start at the neutral
  trace; pass \<open>i\<close> predicts its actions from estimate \<open>i\<close> and replays them with
  \<open>beta = None\<close>, a random initial state and gradients disabled, and the trace that this
  replay returns is estimate \<open>i + 1\<close>; the last estimate is the trace that the pass
  returns. The count does not depend on any computed value, and the pass returns: the
  model is a total function whose loop recurses on the counter.
\<close>

theorem e_loop_runs_fixed_count:
  "\<exists>L trs rs s.
      calls (snd (sigreg_forward m net bat x pv pr peak_ind w)) = calls w @ L @ [s]
      \<and> length L = nat (e_step_iters m)
      \<and> length trs = Suc (nat (e_step_iters m))
      \<and> length rs = Suc (nat (e_step_iters m))
      \<and> trs ! 0 = get_neutral_trace bat (size0 x) (size1 x)
      \<and> rs ! 0 = rng w
      \<and> (\<forall>i<nat (e_step_iters m).
            L ! i = \<lparr>sim_method = Forward,
                      sim_grid_action =
                        fst (predict_actions net bat (features net x) (trs ! i)),
                      sim_pv_action =
                        snd (predict_actions net bat (features net x) (trs ! i)),
                      sim_beta = None, sim_random_initial_state = Some True,
                      sim_grad_enabled = False\<rparr>
            \<and> fst (fst (seq_forward bat
                          (fst (predict_actions net bat (features net x) (trs ! i)))
                          (snd (predict_actions net bat (features net x) (trs ! i)))
                          pv pr None True peak_ind (rs ! i))) = trs ! Suc i
            \<and> snd (seq_forward bat
                     (fst (predict_actions net bat (features net x) (trs ! i)))
                     (snd (predict_actions net bat (features net x) (trs ! i)))
                     pv pr None True peak_ind (rs ! i)) = rs ! Suc i)
      \<and> fst (snd (snd (fst (sigreg_forward m net bat x pv pr peak_ind w))))
          = trs ! nat (e_step_iters m)
      \<and> (\<forall>c \<in> set L. sim_method c = Forward \<and> sim_beta c = None
            \<and> sim_random_initial_state c = Some True \<and> sim_grad_enabled c = False)
      \<and> sim_method s = StaticForward"
proof -
  let ?w0 = "w\<lparr>grad_enabled := False\<rparr>"
  let ?k = "nat (e_step_iters m)"
  let ?loop = "e_loop net bat (features net x) pv pr peak_ind ?k
                 (get_neutral_trace bat (size0 x) (size1 x)) ?w0"
  from e_loop_unrolled [of net bat "features net x" pv pr peak_ind ?k
      "get_neutral_trace bat (size0 x) (size1 x)" ?w0]
  obtain L trs rs where
    all: "calls (snd ?loop) = calls ?w0 @ L
      \<and> length L = ?k \<and> length trs = Suc ?k \<and> length rs = Suc ?k
      \<and> trs ! 0 = get_neutral_trace bat (size0 x) (size1 x) \<and> rs ! 0 = rng ?w0
      \<and> (\<forall>i<?k.
            L ! i = \<lparr>sim_method = Forward,
                      sim_grid_action =
                        fst (predict_actions net bat (features net x) (trs ! i)),
                      sim_pv_action =
                        snd (predict_actions net bat (features net x) (trs ! i)),
                      sim_beta = None, sim_random_initial_state = Some True,
                      sim_grad_enabled = grad_enabled ?w0\<rparr>
            \<and> fst (fst (seq_forward bat
                          (fst (predict_actions net bat (features net x) (trs ! i)))
                          (snd (predict_actions net bat (features net x) (trs ! i)))
                          pv pr None True peak_ind (rs ! i))) = trs ! Suc i
            \<and> snd (seq_forward bat
                     (fst (predict_actions net bat (features net x) (trs ! i)))
                     (snd (predict_actions net bat (features net x) (trs ! i)))
                     pv pr None True peak_ind (rs ! i)) = rs ! Suc i)
      \<and> fst ?loop = trs ! ?k
      \<and> rng (snd ?loop) = rs ! ?k
      \<and> grad_enabled (snd ?loop) = grad_enabled ?w0"
    by (elim exE) (rule that)
  let ?g = "fst (fst (sigreg_forward m net bat x pv pr peak_ind w))"
  let ?p = "fst (snd (fst (sigreg_forward m net bat x pv pr peak_ind w)))"
  let ?s = "\<lparr>sim_method = StaticForward, sim_grid_action = map (map tanh) ?g,
             sim_pv_action = map (map sigmoid) ?p, sim_beta = beta m,
             sim_random_initial_state = None, sim_grad_enabled = grad_enabled w\<rparr>"
  have log: "calls (snd (sigreg_forward m net bat x pv pr peak_ind w)) = calls w @ L @ [?s]"
    using all by (subst sigreg_forward_world) (simp add: m_step_world)
  have "fst (snd (snd (fst (sigreg_forward m net bat x pv pr peak_ind w)))) = fst ?loop"
    by (simp add: sigreg_forward_def Let_def split: prod.splits)
  with all have ret:
    "fst (snd (snd (fst (sigreg_forward m net bat x pv pr peak_ind w)))) = trs ! ?k"
    by simp
  have flags: "\<forall>c \<in> set L. sim_method c = Forward \<and> sim_beta c = None
            \<and> sim_random_initial_state c = Some True \<and> sim_grad_enabled c = False"
  proof
    fix c assume "c \<in> set L"
    then obtain i where "i < length L" "L ! i = c" by (auto simp: in_set_conv_nth)
    with all show "sim_method c = Forward \<and> sim_beta c = None
            \<and> sim_random_initial_state c = Some True \<and> sim_grad_enabled c = False"
      by auto
  qed
  show ?thesis
    using all log ret flags
    by (intro exI [of _ L] exI [of _ trs] exI [of _ rs] exI [of _ ?s]) simp
qed

theorem e_loop_runs_fixed_count_witness:
  "nat (e_step_iters demo_sigreg2) = 2
   \<and> calls (snd (sigreg_forward demo_sigreg2 demo_feedback_nets demo_seq_battery demo_x1
                   [] [] () (demo_world 3)))
       = [\<lparr>sim_method = Forward, sim_grid_action = [[tanh (1 / 2)]],
            sim_pv_action = [[1 / 2]], sim_beta = None,
            sim_random_initial_state = Some True, sim_grad_enabled = False\<rparr>,
          \<lparr>sim_method = Forward,
            sim_grid_action = [[tanh (min 10 (3 + 5 * tanh (1 / 2)) / 10)]],
            sim_pv_action = [[1 / 2]], sim_beta = None,
            sim_random_initial_state = Some True, sim_grad_enabled = False\<rparr>,
          \<lparr>sim_method = StaticForward,
            sim_grid_action =
              [[tanh (tanh (min 10 (4 + 5 * tanh (min 10 (3 + 5 * tanh (1 / 2)) / 10))
                            / 10))]],
            sim_pv_action = [[sigmoid (1 / 2)]], sim_beta = Some (1 / 2),
            sim_random_initial_state = None, sim_grad_enabled = True\<rparr>]
   \<and> get_neutral_trace demo_seq_battery (size0 demo_x1) (size1 demo_x1) = [[5, 5]]
   \<and> fst (fst (seq_forward demo_seq_battery [[tanh (1 / 2)]] [[1 / 2]] [] [] None True () 3))
       = [[3, min 10 (3 + 5 * tanh (1 / 2))]]
   \<and> fst (snd (snd (fst (sigreg_forward demo_sigreg2 demo_feedback_nets demo_seq_battery
                           demo_x1 [] [] () (demo_world 3)))))
       = [[4, min 10 (4 + 5 * tanh (min 10 (3 + 5 * tanh (1 / 2)) / 10))]]"
  using e_loop_runs_fixed_count [where m = demo_sigreg2 and net = demo_feedback_nets
      and bat = demo_seq_battery and x = demo_x1 and pv = "[]" and pr = "[]"
      and peak_ind = "()" and w = "demo_world 3"]
  by (simp add: sigreg_forward_def predict_actions_def e_step_def m_step_def Let_def
      demo_sigreg2_def demo_feedback_nets_def demo_seq_battery_def demo_x1_def
      demo_world_def sigmoid_def numeral_2_eq_2)

section \<open>What a forward pass of the signature controller returns\<close>

lemma predict_actions_static_indep:
  "predict_actions net (bat\<lparr>static_forward := sf\<rparr>) feats tr = predict_actions net bat feats tr"
  by (simp add: predict_actions_def)

lemma e_step_static_indep:
  "e_step (bat\<lparr>static_forward := sf\<rparr>) grid pv_act pv pr peak_ind w
     = e_step bat grid pv_act pv pr peak_ind w"
  by (simp add: e_step_def)

lemma e_loop_static_indep:
  "e_loop net (bat\<lparr>static_forward := sf\<rparr>) feats pv pr peak_ind n tr w
     = e_loop net bat feats pv pr peak_ind n tr w"
  by (induction n arbitrary: tr w)
     (simp_all add: predict_actions_static_indep e_step_static_indep split: prod.splits)

lemma e_loop_last_replay:
  "0 < n \<Longrightarrow>
   \<exists>ga pa r pre.
     fst (e_loop net bat feats pv pr peak_ind n tr w)
       = fst (fst (seq_forward bat ga pa pv pr None True peak_ind r))
     \<and> calls (snd (e_loop net bat feats pv pr peak_ind n tr w))
       = pre @ [\<lparr>sim_method = Forward, sim_grid_action = ga, sim_pv_action = pa,
                  sim_beta = None, sim_random_initial_state = Some True,
                  sim_grad_enabled = grad_enabled w\<rparr>]"
proof (induction n arbitrary: tr w)
  case 0
  then show ?case by simp
next
  case (Suc n)
  obtain grid pv_act where p: "predict_actions net bat feats tr = (grid, pv_act)"
    by (cases "predict_actions net bat feats tr")
  obtain tr' cs w' where s: "e_step bat grid pv_act pv pr peak_ind w = ((tr', cs), w')"
    by (metis surj_pair)
  have unfold: "e_loop net bat feats pv pr peak_ind (Suc n) tr w
                  = e_loop net bat feats pv pr peak_ind n tr' w'"
    using p s by simp
  have w': "calls w' = calls w @ [\<lparr>sim_method = Forward, sim_grid_action = grid,
                  sim_pv_action = pv_act, sim_beta = None,
                  sim_random_initial_state = Some True,
                  sim_grad_enabled = grad_enabled w\<rparr>]"
      "grad_enabled w' = grad_enabled w"
    using e_step_world [of bat grid pv_act pv pr peak_ind w] s by simp_all
  have tr': "tr' = fst (fst (seq_forward bat grid pv_act pv pr None True peak_ind (rng w)))"
    using e_step_trace [of bat grid pv_act pv pr peak_ind w] s by simp
  show ?case
  proof (cases n)
    case 0
    with unfold tr' w' show ?thesis by auto
  next
    case (Suc k)
    then have "0 < n" by simp
    from Suc.IH [OF this, of tr' w'] unfold w'(2) show ?thesis by simp
  qed
qed

text \<open>
  Claim C7. The trace that \<open>forward\<close> returns is the estimate that the loop leaves
  behind. When the loop runs at least once, it is the trace of a forward replay with
  \<open>beta = None\<close> and a random initial state, logged with gradients disabled as the
  call before the static replay. The costs are those of the static replay on that
  estimate without its first column, and the trace that the static replay returns is
  dropped: putting any other static replay in the environment leaves the returned trace
  unchanged.
\<close>

theorem returned_trace_is_estimate:
  "(case fst (sigreg_forward m net bat x pv pr peak_ind w) of
      (grid_actions, pv_actions, battery_trace, costs) \<Rightarrow>
        battery_trace
          = fst (e_loop net bat (features net x) pv pr peak_ind (nat (e_step_iters m))
                   (get_neutral_trace bat (size0 x) (size1 x)) (w\<lparr>grad_enabled := False\<rparr>))
        \<and> (0 < e_step_iters m \<longrightarrow>
             (\<exists>ga pa r pre s.
                battery_trace = fst (fst (seq_forward bat ga pa pv pr None True peak_ind r))
                \<and> calls (snd (sigreg_forward m net bat x pv pr peak_ind w))
                    = pre @ [\<lparr>sim_method = Forward, sim_grid_action = ga,
                               sim_pv_action = pa, sim_beta = None,
                               sim_random_initial_state = Some True,
                               sim_grad_enabled = False\<rparr>, s]
                \<and> sim_method s = StaticForward))
        \<and> (\<exists>r. costs
                  = snd (fst (static_forward bat (map tl battery_trace)
                                (map (map tanh) grid_actions) (map (map sigmoid) pv_actions)
                                pv pr (beta m) peak_ind r)))
        \<and> fst (snd (snd (fst (sigreg_forward m net (bat\<lparr>static_forward := sf\<rparr>)
                                 x pv pr peak_ind w))))
            = battery_trace)"
proof -
  let ?w0 = "w\<lparr>grad_enabled := False\<rparr>"
  let ?loop = "e_loop net bat (features net x) pv pr peak_ind (nat (e_step_iters m))
                 (get_neutral_trace bat (size0 x) (size1 x)) ?w0"
  let ?r = "fst (sigreg_forward m net bat x pv pr peak_ind w)"
  let ?tr = "fst (snd (snd ?r))"
  have tr: "?tr = fst ?loop"
    by (simp add: sigreg_forward_def Let_def split: prod.splits)
  have costs: "\<exists>r. snd (snd (snd ?r))
                  = snd (fst (static_forward bat (map tl ?tr)
                                (map (map tanh) (fst ?r)) (map (map sigmoid) (fst (snd ?r)))
                                pv pr (beta m) peak_ind r))"
    by (rule exI [of _ "rng (snd ?loop)"])
       (simp add: sigreg_forward_def m_step_def Let_def split: prod.splits)
  have indep: "fst (snd (snd (fst (sigreg_forward m net (bat\<lparr>static_forward := sf\<rparr>)
                                 x pv pr peak_ind w)))) = ?tr"
    by (simp add: sigreg_forward_def Let_def e_loop_static_indep split: prod.splits)
  have last: "0 < e_step_iters m \<longrightarrow>
             (\<exists>ga pa r pre s.
                ?tr = fst (fst (seq_forward bat ga pa pv pr None True peak_ind r))
                \<and> calls (snd (sigreg_forward m net bat x pv pr peak_ind w))
                    = pre @ [\<lparr>sim_method = Forward, sim_grid_action = ga,
                               sim_pv_action = pa, sim_beta = None,
                               sim_random_initial_state = Some True,
                               sim_grad_enabled = False\<rparr>, s]
                \<and> sim_method s = StaticForward)"
  proof
    assume "0 < e_step_iters m"
    then have "0 < nat (e_step_iters m)" by simp
    from e_loop_last_replay [OF this, of net bat "features net x" pv pr peak_ind
        "get_neutral_trace bat (size0 x) (size1 x)" ?w0]
    obtain ga pa r pre where
      a: "fst ?loop = fst (fst (seq_forward bat ga pa pv pr None True peak_ind r))"
      and b: "calls (snd ?loop)
           = pre @ [\<lparr>sim_method = Forward, sim_grid_action = ga, sim_pv_action = pa,
                      sim_beta = None, sim_random_initial_state = Some True,
                      sim_grad_enabled = False\<rparr>]"
      by auto
    let ?s = "\<lparr>sim_method = StaticForward, sim_grid_action = map (map tanh) (fst ?r),
               sim_pv_action = map (map sigmoid) (fst (snd ?r)), sim_beta = beta m,
               sim_random_initial_state = None, sim_grad_enabled = grad_enabled w\<rparr>"
    have "calls (snd (sigreg_forward m net bat x pv pr peak_ind w))
            = pre @ [\<lparr>sim_method = Forward, sim_grid_action = ga, sim_pv_action = pa,
                      sim_beta = None, sim_random_initial_state = Some True,
                      sim_grad_enabled = False\<rparr>, ?s]"
      by (subst sigreg_forward_world) (simp add: m_step_world b)
    with a tr show "\<exists>ga pa r pre s.
                ?tr = fst (fst (seq_forward bat ga pa pv pr None True peak_ind r))
                \<and> calls (snd (sigreg_forward m net bat x pv pr peak_ind w))
                    = pre @ [\<lparr>sim_method = Forward, sim_grid_action = ga,
                               sim_pv_action = pa, sim_beta = None,
                               sim_random_initial_state = Some True,
                               sim_grad_enabled = False\<rparr>, s]
                \<and> sim_method s = StaticForward"
      by (intro exI [of _ ga] exI [of _ pa] exI [of _ r] exI [of _ pre] exI [of _ ?s]) simp
  qed
  from tr costs indep last show ?thesis
    by (simp add: case_prod_beta)
qed

lemmas demo_sig_defs =
  demo_sigreg_def demo_sig_nets_def demo_seq_battery_def demo_x1_def demo_world_def

lemmas sigreg_forward_defs =
  sigreg_forward_def predict_actions_def e_step_def m_step_def Let_def

theorem returned_trace_is_estimate_witness:
  "0 < e_step_iters demo_sigreg
   \<and> fst (snd (snd (fst (sigreg_forward demo_sigreg demo_sig_nets demo_seq_battery
                           demo_x1 [] [] () (demo_world 0)))))
       = fst (fst (seq_forward demo_seq_battery [[tanh 1]] [[1 / 2]] [] [] None True () 0))
   \<and> fst (snd (snd (fst (sigreg_forward demo_sigreg demo_sig_nets demo_seq_battery
                           demo_x1 [] [] () (demo_world 0)))))
       = [[0, min 10 (5 * tanh 1)]]
   \<and> snd (snd (snd (fst (sigreg_forward demo_sigreg demo_sig_nets demo_seq_battery
                           demo_x1 [] [] () (demo_world 0)))))
       = [[5 * tanh (tanh 1)]]
   \<and> fst (snd (snd (fst (sigreg_forward demo_sigreg demo_sig_nets
                           (demo_seq_battery\<lparr>static_forward :=
                              (\<lambda>est grid pv_act pv pr b peak w. (([], []), w))\<rparr>)
                           demo_x1 [] [] () (demo_world 0)))))
       = [[0, min 10 (5 * tanh 1)]]"
  using returned_trace_is_estimate [where m = demo_sigreg and net = demo_sig_nets
      and bat = demo_seq_battery and x = demo_x1 and pv = "[]" and pr = "[]"
      and peak_ind = "()" and w = "demo_world 0"
      and sf = "\<lambda>est grid pv_act pv pr b peak w. (([], []), w)"]
  by (simp add: sigreg_forward_defs demo_sig_defs sigmoid_def)

section \<open>The static replay and the returned actions\<close>

lemma tanh_tanh_one: "tanh (tanh 1) \<noteq> tanh (1::real)"
proof
  assume "tanh (tanh 1) = tanh (1::real)"
  then have "tanh 1 = (1::real)" by simp
  with tanh_real_lt_1 [of 1] show False by simp
qed

lemma sigmoid_half: "sigmoid (1 / 2) \<noteq> 1 / 2"
proof
  assume "sigmoid (1 / 2) = 1 / 2"
  then have "exp (- (1 / 2)) = (1::real)"
    by (simp add: sigmoid_def field_simps)
  then show False by simp
qed

text \<open>
  Claim C1 fails on the code. \<open>forward\<close> squashes the network output and returns it,
  and \<open>m_step\<close> squashes its arguments again before the static replay: for every input
  the replayed grid action is \<open>tanh\<close> of the returned one and the replayed solar action
  is \<open>sigmoid\<close> of the returned one. On the instance, where the network puts out 1 and
  0, the pass returns the grid action \<open>tanh 1\<close> and the solar action \<open>1 / 2\<close>, while the
  costs it returns are those of \<open>tanh (tanh 1)\<close> and \<open>sigmoid (1 / 2)\<close>.
\<close>

theorem static_replay_squashes_again:
  "sim_grid_action (last (calls (snd (sigreg_forward m net bat x pv pr peak_ind w))))
     = map (map tanh) (fst (fst (sigreg_forward m net bat x pv pr peak_ind w)))
   \<and> sim_pv_action (last (calls (snd (sigreg_forward m net bat x pv pr peak_ind w))))
     = map (map sigmoid) (fst (snd (fst (sigreg_forward m net bat x pv pr peak_ind w))))
   \<and> sim_method (last (calls (snd (sigreg_forward m net bat x pv pr peak_ind w))))
     = StaticForward
   \<and> fst (sigreg_forward demo_sigreg demo_sig_nets demo_seq_battery demo_x1 [] [] ()
            (demo_world 0))
     = ([[tanh 1]], [[1 / 2]], [[0, min 10 (5 * tanh 1)]], [[5 * tanh (tanh 1)]])
   \<and> sim_grid_action (last (calls (snd (sigreg_forward demo_sigreg demo_sig_nets
        demo_seq_battery demo_x1 [] [] () (demo_world 0))))) = [[tanh (tanh 1)]]
   \<and> sim_pv_action (last (calls (snd (sigreg_forward demo_sigreg demo_sig_nets
        demo_seq_battery demo_x1 [] [] () (demo_world 0))))) = [[sigmoid (1 / 2)]]
   \<and> tanh (tanh 1) \<noteq> tanh (1::real)
   \<and> sigmoid (1 / 2) \<noteq> 1 / 2"
proof -
  have g: "calls (snd (sigreg_forward m net bat x pv pr peak_ind w)) \<noteq> []
     \<and> last (calls (snd (sigreg_forward m net bat x pv pr peak_ind w)))
     = \<lparr>sim_method = StaticForward,
        sim_grid_action = map (map tanh) (fst (fst (sigreg_forward m net bat x pv pr peak_ind w))),
        sim_pv_action =
          map (map sigmoid) (fst (snd (fst (sigreg_forward m net bat x pv pr peak_ind w)))),
        sim_beta = beta m, sim_random_initial_state = None,
        sim_grad_enabled = grad_enabled w\<rparr>"
    by (subst (1 2) sigreg_forward_world) (simp add: m_step_world)
  have e: "fst (sigreg_forward demo_sigreg demo_sig_nets demo_seq_battery demo_x1 [] [] ()
            (demo_world 0))
     = ([[tanh 1]], [[1 / 2]], [[0, min 10 (5 * tanh 1)]], [[5 * tanh (tanh 1)]])"
    by (simp add: sigreg_forward_defs demo_sig_defs sigmoid_def)
  have c: "calls (snd (sigreg_forward demo_sigreg demo_sig_nets demo_seq_battery demo_x1
                         [] [] () (demo_world 0)))
       = [\<lparr>sim_method = Forward, sim_grid_action = [[tanh 1]], sim_pv_action = [[1 / 2]],
            sim_beta = None, sim_random_initial_state = Some True,
            sim_grad_enabled = False\<rparr>,
          \<lparr>sim_method = StaticForward, sim_grid_action = [[tanh (tanh 1)]],
            sim_pv_action = [[sigmoid (1 / 2)]], sim_beta = Some (1 / 2),
            sim_random_initial_state = None, sim_grad_enabled = True\<rparr>]"
    by (simp add: sigreg_forward_defs demo_sig_defs sigmoid_def)
  from g e c tanh_tanh_one sigmoid_half show ?thesis by simp
qed

section \<open>The initial state outside training\<close>

text \<open>In evaluation mode the discrete controller starts from the fixed initial state and
  draws nothing from the generator: its pass does not depend on the generator's state.\<close>

lemma discrete_eval_initial_state:
  assumes "\<not> training m"
  shows "forward_steps m net bat x pv pr peak_ind hard w
           = (forward_loop net bat hard (beta m) x pv pr peak_ind [0..<size1 x]
                (zeros_h net (size0 x)) (get_initial_state bat (size0 x)), w)"
  using assms by (simp add: forward_steps_def Let_def)

lemma discrete_eval_deterministic:
  assumes "\<not> training m"
  shows "fst (discrete_forward m net bat x pv pr peak_ind hard w)
           = fst (discrete_forward m net bat x pv pr peak_ind hard w')"
  using assms by (simp add: discrete_forward_def discrete_eval_initial_state)

lemma sigreg_forward_ignores_training:
  "sigreg_forward (m\<lparr>training := t\<rparr>) net bat x pv pr peak_ind w
     = sigreg_forward m net bat x pv pr peak_ind w"
  by (simp add: sigreg_forward_def m_step_def)

text \<open>
  Claim C8 fails on the code for the signature controller. Its \<open>forward\<close> never reads
  the training flag, and \<open>e_step\<close> always asks the simulator for a random initial
  state. On the instance, in evaluation mode, the first simulator call carries
  \<open>random_initial_state = True\<close>, and two passes that differ only in the state of the
  generator return traces that start at different states of charge.
\<close>

theorem eval_mode_e_step_is_random:
  "training demo_sigreg = False
   \<and> sigreg_forward (demo_sigreg\<lparr>training := True\<rparr>) demo_sig_nets demo_seq_battery demo_x1
        [] [] () (demo_world 0)
     = sigreg_forward demo_sigreg demo_sig_nets demo_seq_battery demo_x1 [] [] ()
        (demo_world 0)
   \<and> sim_random_initial_state (hd (calls (snd (sigreg_forward demo_sigreg demo_sig_nets
        demo_seq_battery demo_x1 [] [] () (demo_world 0))))) = Some True
   \<and> sim_method (hd (calls (snd (sigreg_forward demo_sigreg demo_sig_nets
        demo_seq_battery demo_x1 [] [] () (demo_world 0))))) = Forward
   \<and> map hd (fst (snd (snd (fst (sigreg_forward demo_sigreg demo_sig_nets demo_seq_battery
        demo_x1 [] [] () (demo_world 0)))))) = [0]
   \<and> map hd (fst (snd (snd (fst (sigreg_forward demo_sigreg demo_sig_nets demo_seq_battery
        demo_x1 [] [] () (demo_world 1)))))) = [1]
   \<and> fst (snd (snd (fst (sigreg_forward demo_sigreg demo_sig_nets demo_seq_battery
        demo_x1 [] [] () (demo_world 0)))))
     \<noteq> fst (snd (snd (fst (sigreg_forward demo_sigreg demo_sig_nets demo_seq_battery
        demo_x1 [] [] () (demo_world 1)))))"
proof -
  have t0: "map hd (fst (snd (snd (fst (sigreg_forward demo_sigreg demo_sig_nets
        demo_seq_battery demo_x1 [] [] () (demo_world 0)))))) = [0]"
    by (simp add: sigreg_forward_defs demo_sig_defs sigmoid_def)
  have t1: "map hd (fst (snd (snd (fst (sigreg_forward demo_sigreg demo_sig_nets
        demo_seq_battery demo_x1 [] [] () (demo_world 1)))))) = [1]"
    by (simp add: sigreg_forward_defs demo_sig_defs sigmoid_def)
  have ne: "fst (snd (snd (fst (sigreg_forward demo_sigreg demo_sig_nets demo_seq_battery
        demo_x1 [] [] () (demo_world 0)))))
     \<noteq> fst (snd (snd (fst (sigreg_forward demo_sigreg demo_sig_nets demo_seq_battery
        demo_x1 [] [] () (demo_world 1)))))"
    using t0 t1 by (metis list.inject zero_neq_one)
  have c: "sim_random_initial_state (hd (calls (snd (sigreg_forward demo_sigreg
        demo_sig_nets demo_seq_battery demo_x1 [] [] () (demo_world 0))))) = Some True
      \<and> sim_method (hd (calls (snd (sigreg_forward demo_sigreg demo_sig_nets
        demo_seq_battery demo_x1 [] [] () (demo_world 0))))) = Forward"
    by (simp add: sigreg_forward_defs demo_sig_defs sigmoid_def)
  have f: "training demo_sigreg = False" by (simp add: demo_sigreg_def)
  from t0 t1 ne c f sigreg_forward_ignores_training show ?thesis by simp
qed

section \<open>Shapes returned by the forward passes\<close>

lemma and_then_Inr: "and_then r f = Inr v \<Longrightarrow> \<exists>u. r = Inr u \<and> f u = Inr v"
  by (cases r) (simp_all add: and_then_def)

lemma linear_shape_Inr:
  "linear_shape n_in n_out s = Inr t \<Longrightarrow> s \<noteq> [] \<and> last s = n_in \<and> t = butlast s @ [n_out]"
  by (auto simp: linear_shape_def split: if_splits)

lemma sig_fc_shape_Inr:
  assumes "sig_fc_shape d s = Inr t"
  shows "s \<noteq> [] \<and> t = butlast s @ [2]"
proof -
  from assms obtain s1 s2 where
    a: "linear_shape (gc_logsig_channels d + sig_hidden_size d + 1) (reg_size d) s = Inr s1"
    and b: "linear_shape (reg_size d) (reg_size d) s1 = Inr s2"
    and c: "linear_shape (reg_size d) 2 s2 = Inr t"
    unfolding sig_fc_shape_def by (blast dest: and_then_Inr)
  from linear_shape_Inr [OF a] linear_shape_Inr [OF b] linear_shape_Inr [OF c]
  show ?thesis by simp
qed

text \<open>When the prediction goes through on features of shape (B, T, .), the trace has two
  axes, the second one longer by one than T (or empty with T = 0), and both actions have
  shape (B, T).\<close>

lemma predict_actions_shape_Inr:
  assumes "predict_actions_shape d [B, T, L] [B, T, H] tr = Inr (grid, solar)"
  shows "grid = [B, T] \<and> solar = [B, T] \<and> (\<exists>n. tr = [B, n] \<and> n - 1 = T)"
proof -
  from assms obtain channel combined actions where
    ch: "tail1_newaxis tr = Inr channel"
    and cat: "cat_last [[B, T, L], [B, T, H], channel] = Inr combined"
    and fc: "sig_fc_shape d combined = Inr actions"
    and g: "select_last actions = Inr grid"
    and s: "select_last actions = Inr solar"
    unfolding predict_actions_shape_def
    by (fastforce dest!: and_then_Inr)
  from ch obtain a b rest where tr: "tr = a # b # rest" and channel: "channel = a # (b - 1) # 1 # rest"
    by (auto simp: tail1_newaxis_def split: list.splits)
  from cat channel have "butlast (a # (b - 1) # 1 # rest) = [B, T]"
    and combined: "combined = [B, T, L + H + last channel]"
    by (auto simp: cat_last_def split: if_splits)
  then have rest: "rest = []" "a = B" "b - 1 = T"
    by (auto split: if_splits)
  from sig_fc_shape_Inr [OF fc] combined have "actions = [B, T, 2]" by simp
  with g s have "grid = [B, T]" "solar = [B, T]"
    by (simp_all add: select_last_def)
  with tr rest show ?thesis by simp
qed

lemma features_shape_Inr:
  "features_shape d x = Inr (logsig, local) \<Longrightarrow>
   \<exists>B T F. x = [B, T, F] \<and> logsig = [B, T, gc_logsig_channels d]
           \<and> local = [B, T, sig_hidden_size d]"
  by (auto simp: features_shape_def split: list.splits if_splits)

lemma sigreg_forward_shape_Inr:
  assumes "sigreg_forward_shape d bat iters x pv pr peak_ind = Inr (grid, solar, tr, costs)"
  shows "\<exists>B T F n. x = [B, T, F] \<and> grid = [B, T] \<and> solar = [B, T]
                   \<and> tr = [B, n] \<and> n - 1 = T"
proof -
  from assms obtain logsig local tr' grid' solar' where
    f: "features_shape d x = Inr (logsig, local)"
    and p: "predict_actions_shape d logsig local tr' = Inr (grid', solar')"
    and r: "grid' = grid" "solar' = solar" "tr' = tr"
    unfolding sigreg_forward_shape_def
    by (fastforce dest!: and_then_Inr split: prod.splits)
  from features_shape_Inr [OF f] obtain B T F where
    x: "x = [B, T, F]" "logsig = [B, T, gc_logsig_channels d]"
       "local = [B, T, sig_hidden_size d]"
    by blast
  from predict_actions_shape_Inr [OF p [unfolded x(2,3)]] r x(1) show ?thesis by auto
qed

lemma discrete_forward_shape_Inr:
  assumes "discrete_forward_shape d bat train hard x pv pr peak_ind = Inr r"
  shows "\<exists>B T rest. x = B # T # rest \<and> r = ([B, T, 1], [B, T, 1], [B, T, 1], [B, T, 1])"
  using assms
  by (auto simp: discrete_forward_shape_def and_then_def split: list.splits sum.splits)

text \<open>
  Claim C9, as amended. Whenever the pass goes through on an input of shape
  (batch, time, ...): the discrete controller returns four tensors of shape
  (batch, time, 1); the signature controller returns grid and solar actions of shape
  (batch, time), since \<^verbatim>\<open>actions[..., 0]\<close> drops the last axis, and a battery trace
  with two axes, (batch, n) with \<open>n - 1 = time\<close>, since the trace is only sliced and
  never reshaped. The shape of its costs is whatever the static replay returns.
\<close>

theorem forward_result_shapes:
  "(discrete_forward_shape d bat train hard x pv pr peak_ind = Inr r \<longrightarrow>
      (\<exists>B T rest. x = B # T # rest
         \<and> r = ([B, T, 1], [B, T, 1], [B, T, 1], [B, T, 1])))
   \<and> (sigreg_forward_shape sd sbat iters sx spv spr speak = Inr (grid, solar, tr, costs) \<longrightarrow>
        (\<exists>B T F n. sx = [B, T, F] \<and> grid = [B, T] \<and> solar = [B, T]
           \<and> tr = [B, n] \<and> n - 1 = T))"
  using discrete_forward_shape_Inr [of d bat train hard x pv pr peak_ind r]
    sigreg_forward_shape_Inr [of sd sbat iters sx spv spr speak grid solar tr costs]
  by blast

lemma upt_three: "[0..<3] = [0, Suc 0, 2]"
  by (simp add: eval_nat_numeral)

lemmas shape_defs =
  and_then_def slice1_def newaxis1_def cat_last_def encoder_shape_def fc_shape_def
  linear_shape_def select_shape_def index1_def add_into_def broadcasts_to_def
  select_last_def features_shape_def predict_actions_shape_def tail1_newaxis_def
  tail1_def sig_fc_shape_def

lemma demo_discrete_shapes:
  "discrete_forward_shape demo_dims demo_battery_shapes False True
     [2, 3, 5] [2, 3, 1] [2, 3, 1] [2, 3]
   = Inr ([2, 3, 1], [2, 3, 1], [2, 3, 1], [2, 3, 1])"
  by (simp add: discrete_forward_shape_def demo_dims_def demo_battery_shapes_def
      upt_three shape_defs)

lemma demo_sigreg_shapes:
  "sigreg_forward_shape demo_sig_dims demo_seq_shapes 5 [2, 3, 5] [2, 3] [2, 3] [2, 3]
   = Inr ([2, 3], [2, 3], [2, 4], [2, 3])"
  by (simp add: sigreg_forward_shape_def demo_sig_dims_def demo_seq_shapes_def
      shape_defs eval_nat_numeral)

theorem forward_result_shapes_witness:
  "discrete_forward_shape demo_dims demo_battery_shapes False True
     [2, 3, 5] [2, 3, 1] [2, 3, 1] [2, 3]
   = Inr ([2, 3, 1], [2, 3, 1], [2, 3, 1], [2, 3, 1])
   \<and> sigreg_forward_shape demo_sig_dims demo_seq_shapes 5 [2, 3, 5] [2, 3] [2, 3] [2, 3]
   = Inr ([2, 3], [2, 3], [2, 4], [2, 3])
   \<and> (4::nat) - 1 = 3"
  using forward_result_shapes [where d = demo_dims and bat = demo_battery_shapes
      and train = False and hard = True and x = "[2, 3, 5]" and pv = "[2, 3, 1]"
      and pr = "[2, 3, 1]" and peak_ind = "[2, 3]"
      and r = "([2, 3, 1], [2, 3, 1], [2, 3, 1], [2, 3, 1])"
      and sd = demo_sig_dims and sbat = demo_seq_shapes and iters = 5
      and sx = "[2, 3, 5]" and spv = "[2, 3]" and spr = "[2, 3]" and speak = "[2, 3]"
      and grid = "[2, 3]" and solar = "[2, 3]" and tr = "[2, 4]" and costs = "[2, 3]"]
    demo_discrete_shapes demo_sigreg_shapes
  by simp

text \<open>
  The claim as stated fails for the signature controller: on a batch of 2 with 3 time
  steps its actions have shape (2, 3) and its trace (2, 4), not (2, 3, 1).
\<close>

theorem sigreg_shapes_counterexample:
  "sigreg_forward_shape demo_sig_dims demo_seq_shapes 5 [2, 3, 5] [2, 3] [2, 3] [2, 3]
     = Inr ([2, 3], [2, 3], [2, 4], [2, 3])
   \<and> [2, 3] \<noteq> [2, 3, 1 :: nat]
   \<and> [2, 4] \<noteq> [2, 3, 1 :: nat]"
  by (simp add: sigreg_forward_shape_def demo_sig_dims_def demo_seq_shapes_def
      shape_defs eval_nat_numeral)

section \<open>Filling of missing fields in the deployment adapter\<close>

lemma map_of_fill_current:
  "key \<in> set cols \<Longrightarrow>
   map_of (fill_current cols mu ext) key
     = Some (case ext key of Some v \<Rightarrow> v | None \<Rightarrow> mu key)"
  by (induction cols) (auto simp: fill_current_def)

lemma map_of_fillna:
  "map_of (fillna cur other) key
     = map_option (\<lambda>v. case v of None \<Rightarrow> other key | Some x \<Rightarrow> Some x) (map_of cur key)"
  by (induction cur) (auto simp: fillna_def split: option.splits)

lemma series_get_current_row:
  assumes "key \<in> set cols"
  shows "series_get (current_row cols mu hist ext) key
           = (case (case ext key of Some v \<Rightarrow> v | None \<Rightarrow> mu key) of
                Some x \<Rightarrow> Some x
              | None \<Rightarrow> if hist \<noteq> [] then series_get (last hist) key else mu key)"
  using map_of_fill_current [OF assms, of mu ext]
  by (simp add: current_row_def series_get_def map_of_fillna Let_def)

text \<open>
  Claim C10, as amended. For every active column: a field that the external state does
  not have is filled with the training-set mean; a field that is NaN, in the external
  state or as that mean, is filled with the value of the last stored record when a call
  has stored one, and with the mean otherwise; a field with a number keeps it. The
  filling is a total function of the record: it does not raise, whichever fields are
  missing. Whether the rest of \<open>act\<close> raises is not part of the statement.
\<close>

theorem missing_fields_take_the_mean:
  "key \<in> set cols \<longrightarrow>
     series_get (current_row cols mu hist ext) key
       = (case ext key of
            None \<Rightarrow>
              (case mu key of
                 Some x \<Rightarrow> Some x
               | None \<Rightarrow> if hist \<noteq> [] then series_get (last hist) key else None)
          | Some None \<Rightarrow> if hist \<noteq> [] then series_get (last hist) key else mu key
          | Some (Some v) \<Rightarrow> Some v)"
  using series_get_current_row [of key cols mu hist ext]
  by (auto split: option.splits)

theorem missing_fields_take_the_mean_witness:
  "''price'' \<in> set (active_columns demo_calibration)
   \<and> demo_external ''price'' = None
   \<and> series_get (current_row (active_columns demo_calibration) (means demo_calibration)
                   (historical_states demo_calibration) demo_external) ''price'' = Some 3
   \<and> means demo_calibration ''price'' = Some 3"
  using missing_fields_take_the_mean [where key = "''price''"
      and cols = "active_columns demo_calibration" and mu = "means demo_calibration"
      and hist = "historical_states demo_calibration" and ext = demo_external]
  by (simp add: demo_calibration_def demo_external_def)

text \<open>
  The claim as stated fails twice on the instance. The price is missing from the
  external state and the last record holds 5 for it, yet the field is filled with the
  mean 3. And with \<open>pv_power\<close> missing as well, \<open>act\<close> raises \<open>KeyError\<close>.
\<close>

theorem forward_fill_counterexample:
  "series_get (current_row (active_columns demo_calibration) (means demo_calibration)
                 (historical_states demo_calibration) demo_external) ''price'' = Some 3
   \<and> spec_fill (means demo_calibration) (historical_states demo_calibration)
        demo_external ''price'' = Some 5
   \<and> fst (act demo_calibration demo_external demo_internal) = Inr (Some 4, 5)
   \<and> fst (act demo_calibration (demo_external(''pv_power'' := None)) demo_internal)
       = Inl KeyError"
  by (simp add: demo_calibration_def demo_external_def demo_internal_def act_def
      current_row_def fill_current_def fillna_def series_get_def spec_fill_def Let_def)

end
